theory Spec2Isabelle
  imports Main "HOL-Library.Sublist" "HOL-Library.Code_Target_Nat"
begin

section \<open>The dashboard client of the price alert system (frontend/app.js)\<close>

text \<open>
  The client is one JavaScript file: a global \<^verbatim>\<open>state\<close> object, REST helpers built on
  \<^verbatim>\<open>fetch\<close>, a WebSocket connection with its four event handlers, and rendering code.
  The embedding keeps the state object as a record and makes explicit what the code
  leaves to the JavaScript runtime: parsed JSON values, thrown errors, the console, the
  persisted token in \<^verbatim>\<open>localStorage\<close>, the WebSocket objects and the pending timers.
  The document itself is not modelled: a call of a rendering function is recorded in a
  trace (\<open>ui\<close>) with its arguments. Where such a call stands inside a \<^verbatim>\<open>try\<close> block, so
  that an exception from it decides what the handler does next, the exception is
  modelled: \<^verbatim>\<open>updateUserUI\<close> in \<^verbatim>\<open>fetchUserProfile\<close> and \<^verbatim>\<open>renderPriceGrid\<close> in
  \<^verbatim>\<open>ws.onmessage\<close> by the conditions under which their own code throws (the elements
  they look up by id are taken to exist), and \<^verbatim>\<open>updatePriceCard\<close>, which depends on what
  the document holds at that moment, by an input of the handler. The other rendering
  calls (\<^verbatim>\<open>renderAlerts\<close>, \<^verbatim>\<open>updateStatsUI\<close>, \<^verbatim>\<open>updateConnectionStatus\<close>) are taken to
  return normally.
\<close>

subsection \<open>JSON values as JavaScript sees them\<close>

text \<open>
  The result of \<^verbatim>\<open>JSON.parse\<close> / \<^verbatim>\<open>response.json()\<close>. A number is kept as the decimal
  text that JavaScript's \<^verbatim>\<open>Number::toString\<close> gives for it (\<^verbatim>\<open>65000\<close>, \<^verbatim>\<open>0.5\<close>): the
  modelled code never calculates with a number, it only tests it for truthiness and
  turns it into a string. The property list of \<open>JObj\<close> is in the order
  \<^verbatim>\<open>Object.entries\<close> enumerates it.
\<close>

datatype json =
    JNull
  | JBool bool
  | JNum string
  | JStr string
  | JArr "json list"
  | JObj "(string \<times> json) list"

text \<open>What a \<^verbatim>\<open>throw\<close> carries. Only \<^verbatim>\<open>new Error(msg)\<close> is built by the code itself;
  the messages of the runtime's own \<^verbatim>\<open>TypeError\<close> and \<^verbatim>\<open>SyntaxError\<close> depend on the
  engine and are left out.\<close>

datatype js_error = Error string | TypeError | SyntaxError

text \<open>JavaScript's \<^verbatim>\<open>ToBoolean\<close> on a parsed JSON value.\<close>

fun truthy :: "json \<Rightarrow> bool" where
  "truthy JNull = False"
| "truthy (JBool b) = b"
| "truthy (JNum n) = (n \<noteq> ''0'')"
| "truthy (JStr s) = (s \<noteq> [])"
| "truthy (JArr _) = True"
| "truthy (JObj _) = True"

fun join :: "string \<Rightarrow> string list \<Rightarrow> string" where
  "join sep [] = []"
| "join sep [x] = x"
| "join sep (x # y # ys) = x @ sep @ join sep (y # ys)"

text \<open>
  JavaScript's \<^verbatim>\<open>ToString\<close> (also \<^verbatim>\<open>ToPropertyKey\<close>) on a parsed JSON value; \<open>None\<close>
  when it throws a \<^verbatim>\<open>TypeError\<close>. An object prints as \<^verbatim>\<open>[object Object]\<close> through the
  inherited \<^verbatim>\<open>toString\<close>; a parsed object with a \<^verbatim>\<open>toString\<close> property of its own hides
  that method behind a value that cannot be called, and the conversion throws. An array
  joins its elements with commas, a \<^verbatim>\<open>null\<close> element printing as the empty string, and
  throws when an element does.
\<close>

fun to_string :: "json \<Rightarrow> string option"
  and to_strings :: "json list \<Rightarrow> string list option" where
  "to_string JNull = Some ''null''"
| "to_string (JBool b) = Some (if b then ''true'' else ''false'')"
| "to_string (JNum n) = Some n"
| "to_string (JStr s) = Some s"
| "to_string (JArr xs) = map_option (join '','') (to_strings xs)"
| "to_string (JObj kvs) =
     (if map_of kvs ''toString'' = None then Some ''[object Object]'' else None)"
| "to_strings [] = Some []"
| "to_strings (x # xs) =
     (case (if x = JNull then Some [] else to_string x) of
        None \<Rightarrow> None
      | Some t \<Rightarrow> map_option ((#) t) (to_strings xs))"

text \<open>
  Reading a property \<^verbatim>\<open>v.k\<close> of a parsed value, for the names the code reads
  (\<^verbatim>\<open>type\<close>, \<^verbatim>\<open>symbol\<close>, \<^verbatim>\<open>prices\<close>, \<^verbatim>\<open>price\<close>, \<^verbatim>\<open>timestamp\<close>, \<^verbatim>\<open>detail\<close>): none of
  them is defined on a built-in prototype, so only an object's own property answers. \<open>None\<close> is
  \<^verbatim>\<open>undefined\<close>; reading a property of \<^verbatim>\<open>null\<close> throws.
\<close>

fun get_prop :: "json \<Rightarrow> string \<Rightarrow> js_error + json option" where
  "get_prop JNull k = Inl TypeError"
| "get_prop (JObj kvs) k = Inr (map_of kvs k)"
| "get_prop _ k = Inr None"

subsection \<open>CONFIG and the state object\<close>

definition RECONNECT_DELAY :: nat where
  "RECONNECT_DELAY = 3000"

text \<open>An alert rule and a user profile as the gateway returns them.\<close>

record alert_rule =
  id_alert :: int
  symbol :: string
  condition :: string
  target_price :: string
  active :: bool
  triggered_count :: nat
  notification_types :: string

record user_profile =
  email :: string
  user_id :: int

text \<open>\<^verbatim>\<open>WebSocket.readyState\<close>.\<close>

datatype ready_state = CONNECTING | OPEN | CLOSING | CLOSED

text \<open>
  \<^verbatim>\<open>state.prices\<close> is a plain object used as a dictionary. \<open>own\<close> is the list of its own
  properties in enumeration order; \<open>proto\<close> is its prototype, which an assignment to
  the key \<^verbatim>\<open>__proto__\<close> replaces.
\<close>

datatype prototype = ObjectPrototype | NullPrototype | ProtoValue json

record store =
  own :: "(string \<times> json) list"
  proto :: prototype

datatype console_entry =
    Log string
  | ErrorLog string js_error
  | ErrorLogEvent string

datatype ui_call =
    UpdateUserUI
  | RenderAlerts
  | UpdateStatsUI
  | RenderPriceGrid
  | UpdatePriceCard json json "json option"
  | UpdateConnectionStatus bool

text \<open>
  The fields of \<^verbatim>\<open>state\<close> (\<open>user\<close> to \<open>activeFilter\<close>; \<open>ws\<close> is a reference into
  \<open>sockets\<close>), followed by the runtime around it: the \<^verbatim>\<open>token\<close> item of localStorage, the
  \<^verbatim>\<open>readyState\<close> of every WebSocket object created so far, the delays of the pending
  \<^verbatim>\<open>setTimeout(connectWebSocket, ...)\<close> timers, the console and the rendering trace.
\<close>

record app_state =
  user :: "user_profile option"
  token :: "string option"
  alerts :: "alert_rule list"
  prices :: store
  ws :: "nat option"
  isConnected :: bool
  activeFilter :: string
  localStorage_token :: "string option"
  sockets :: "ready_state list"
  timers :: "nat list"
  console :: "console_entry list"
  ui :: "ui_call list"

definition initial_state :: app_state where
  "initial_state = \<lparr> user = None, token = None, alerts = [],
     prices = \<lparr> own = [], proto = ObjectPrototype \<rparr>, ws = None, isConnected = False,
     activeFilter = ''all'', localStorage_token = None, sockets = [], timers = [],
     console = [], ui = [] \<rparr>"

subsection \<open>API functions\<close>

text \<open>
  What a \<^verbatim>\<open>fetch\<close> followed by \<^verbatim>\<open>response.json()\<close> can come to: the fetch itself rejects
  (no network), or a response arrives with \<^verbatim>\<open>response.ok\<close> true or false; its body
  parses (\<open>Some\<close>) or \<^verbatim>\<open>response.json()\<close> rejects (\<open>None\<close>). A successful body is typed
  by the endpoint; an error body is any JSON.
\<close>

datatype 'a fetch_outcome =
    FetchRejected
  | HttpOk "'a option"
  | HttpFail "json option"

text \<open>What \<^verbatim>\<open>throw new Error(v)\<close> throws. The message of the new error is
  \<^verbatim>\<open>ToString(v)\<close>, and the empty string inherited from \<^verbatim>\<open>Error.prototype\<close> when \<open>v\<close> is
  \<^verbatim>\<open>undefined\<close>; when \<^verbatim>\<open>ToString(v)\<close> throws, its \<^verbatim>\<open>TypeError\<close> is thrown instead.\<close>

definition new_Error :: "json option \<Rightarrow> js_error" where
  "new_Error v =
     (case v of
        None \<Rightarrow> Error []
      | Some x \<Rightarrow> (case to_string x of None \<Rightarrow> TypeError | Some m \<Rightarrow> Error m))"

text \<open>\<^verbatim>\<open>a || b\<close> on an optional JSON value.\<close>

definition or_else :: "json option \<Rightarrow> json \<Rightarrow> json" where
  "or_else a b = (case a of None \<Rightarrow> b | Some x \<Rightarrow> if truthy x then x else b)"

text \<open>The body of the \<^verbatim>\<open>try\<close> block of \<^verbatim>\<open>apiRequest\<close>.\<close>

definition apiRequest_try :: "'a fetch_outcome \<Rightarrow> js_error + 'a" where
  "apiRequest_try out =
     (case out of
        FetchRejected \<Rightarrow> Inl TypeError
      | HttpFail body \<Rightarrow>
          (let error = (case body of None \<Rightarrow> JObj [(''detail'', JStr ''Request failed'')]
                                   | Some b \<Rightarrow> b)
           in case get_prop error ''detail'' of
                Inl e \<Rightarrow> Inl e
              | Inr d \<Rightarrow> Inl (new_Error (Some (or_else d (JStr ''Request failed'')))))
      | HttpOk None \<Rightarrow> Inl SyntaxError
      | HttpOk (Some v) \<Rightarrow> Inr v)"

text \<open>\<^verbatim>\<open>apiRequest\<close>: the \<^verbatim>\<open>catch\<close> logs the error and throws it again.\<close>

definition apiRequest :: "'a fetch_outcome \<Rightarrow> app_state \<Rightarrow> (js_error + 'a) \<times> app_state" where
  "apiRequest out s =
     (case apiRequest_try out of
        Inl e \<Rightarrow> (Inl e, s\<lparr>console := console s @ [ErrorLog ''API Error:'' e]\<rparr>)
      | Inr v \<Rightarrow> (Inr v, s))"

definition logout :: "app_state \<Rightarrow> app_state" where
  "logout s = s\<lparr> user := None, token := None, alerts := [],
                 localStorage_token := None,
                 ui := ui s @ [UpdateUserUI, RenderAlerts] \<rparr>"

text \<open>
  \<^verbatim>\<open>updateUserUI\<close>: with a user it draws \<^verbatim>\<open>state.user.email[0].toUpperCase()\<close>, which
  throws when the email is empty; without a user it draws the sign-in button.
\<close>

definition updateUserUI :: "app_state \<Rightarrow> js_error option \<times> app_state" where
  "updateUserUI s =
     ((case user s of
         None \<Rightarrow> None
       | Some u \<Rightarrow> if email u = [] then Some TypeError else None),
      s\<lparr>ui := ui s @ [UpdateUserUI]\<rparr>)"

text \<open>
  \<^verbatim>\<open>fetchUserProfile\<close> and \<^verbatim>\<open>fetchAlerts\<close> catch whatever \<^verbatim>\<open>apiRequest\<close> throws, so the
  promise they return always resolves; the result keeps the type of the other
  operations, with \<open>Inl\<close> for a rejection. In \<^verbatim>\<open>fetchUserProfile\<close> the \<^verbatim>\<open>try\<close> block also
  holds the call of \<^verbatim>\<open>updateUserUI\<close>, so an exception there ends in the logout as well.
\<close>

definition fetchUserProfile ::
  "user_profile fetch_outcome \<Rightarrow> app_state \<Rightarrow> (js_error + unit) \<times> app_state" where
  "fetchUserProfile out s =
     (case apiRequest out s of
        (Inr u, s1) \<Rightarrow>
          (case updateUserUI (s1\<lparr>user := Some u\<rparr>) of
             (None, s2) \<Rightarrow> (Inr (), s2)
           | (Some e, s2) \<Rightarrow> (Inr (), logout s2))
      | (Inl e, s1) \<Rightarrow> (Inr (), logout s1))"

definition fetchAlerts ::
  "alert_rule list fetch_outcome \<Rightarrow> app_state \<Rightarrow> (js_error + unit) \<times> app_state" where
  "fetchAlerts out s =
     (case apiRequest out s of
        (Inr as, s1) \<Rightarrow>
          (Inr (), s1\<lparr>alerts := as, ui := ui s1 @ [RenderAlerts, UpdateStatsUI]\<rparr>)
      | (Inl e, s1) \<Rightarrow>
          (Inr (), s1\<lparr>console := console s1 @ [ErrorLog ''Failed to fetch alerts:'' e]\<rparr>))"

definition createAlert ::
  "alert_rule fetch_outcome \<Rightarrow> app_state \<Rightarrow> (js_error + alert_rule) \<times> app_state" where
  "createAlert out s =
     (case apiRequest out s of
        (Inl e, s1) \<Rightarrow> (Inl e, s1)
      | (Inr alert, s1) \<Rightarrow>
          (Inr alert, s1\<lparr>alerts := alert # alerts s1,
                           ui := ui s1 @ [RenderAlerts, UpdateStatsUI]\<rparr>))"

definition deleteAlert ::
  "int \<Rightarrow> unit fetch_outcome \<Rightarrow> app_state \<Rightarrow> (js_error + unit) \<times> app_state" where
  "deleteAlert alertId out s =
     (case apiRequest out s of
        (Inl e, s1) \<Rightarrow> (Inl e, s1)
      | (Inr _, s1) \<Rightarrow>
          (Inr (), s1\<lparr>alerts := filter (\<lambda>a. id_alert a \<noteq> alertId) (alerts s1),
                        ui := ui s1 @ [RenderAlerts, UpdateStatsUI]\<rparr>))"

text \<open>\<^verbatim>\<open>Array.prototype.findIndex\<close>, with \<open>None\<close> for \<^verbatim>\<open>-1\<close>.\<close>

fun findIndex :: "('a \<Rightarrow> bool) \<Rightarrow> 'a list \<Rightarrow> nat option" where
  "findIndex p [] = None"
| "findIndex p (x # xs) =
     (if p x then Some 0 else map_option Suc (findIndex p xs))"

definition toggleAlert ::
  "int \<Rightarrow> alert_rule fetch_outcome \<Rightarrow> app_state \<Rightarrow> (js_error + alert_rule) \<times> app_state" where
  "toggleAlert alertId out s =
     (case apiRequest out s of
        (Inl e, s1) \<Rightarrow> (Inl e, s1)
      | (Inr alert, s1) \<Rightarrow>
          (case findIndex (\<lambda>a. id_alert a = alertId) (alerts s1) of
             Some index \<Rightarrow>
               (Inr alert, s1\<lparr>alerts := (alerts s1)[index := alert],
                                ui := ui s1 @ [RenderAlerts]\<rparr>)
           | None \<Rightarrow> (Inr alert, s1)))"

text \<open>The body the login endpoint answers with.\<close>

record token_response =
  access_token :: string
  token_type :: string

text \<open>
  \<^verbatim>\<open>login\<close> calls \<^verbatim>\<open>fetch\<close> itself (the form-encoded request), outside any \<^verbatim>\<open>try\<close>, and
  then \<^verbatim>\<open>fetchUserProfile\<close> and \<^verbatim>\<open>fetchAlerts\<close>; the three outcomes are its first three
  arguments.
\<close>

definition login ::
  "token_response fetch_outcome \<Rightarrow> user_profile fetch_outcome \<Rightarrow>
   alert_rule list fetch_outcome \<Rightarrow> app_state \<Rightarrow> (js_error + token_response) \<times> app_state" where
  "login out prof_out alerts_out s =
     (case out of
        FetchRejected \<Rightarrow> (Inl TypeError, s)
      | HttpFail body \<Rightarrow>
          (let error = (case body of None \<Rightarrow> JObj [(''detail'', JStr ''Login failed'')]
                                   | Some b \<Rightarrow> b)
           in case get_prop error ''detail'' of
                Inl e \<Rightarrow> (Inl e, s)
              | Inr d \<Rightarrow> (Inl (new_Error d), s))
      | HttpOk None \<Rightarrow> (Inl SyntaxError, s)
      | HttpOk (Some data) \<Rightarrow>
          (let s1 = s\<lparr>token := Some (access_token data),
                       localStorage_token := Some (access_token data)\<rparr>;
               s2 = snd (fetchUserProfile prof_out s1);
               s3 = snd (fetchAlerts alerts_out s2)
           in (Inr data, s3)))"

text \<open>The first block of \<^verbatim>\<open>init\<close>: a saved token is restored and the profile and the
  alerts are fetched with it. An empty string is falsy, as a missing item is.\<close>

definition init_session ::
  "user_profile fetch_outcome \<Rightarrow> alert_rule list fetch_outcome \<Rightarrow> app_state \<Rightarrow> app_state" where
  "init_session prof_out alerts_out s =
     (case localStorage_token s of
        None \<Rightarrow> s
      | Some savedToken \<Rightarrow>
          if savedToken = [] then s
          else snd (fetchAlerts alerts_out
                 (snd (fetchUserProfile prof_out (s\<lparr>token := Some savedToken\<rparr>)))))"

subsection \<open>The instrument catalogue\<close>

text \<open>\<^verbatim>\<open>INSTRUMENTS\<close>, in the order of the object literal. The icon glyphs are
  presentation only and are left out.\<close>

record instrument =
  name :: string
  category :: string

definition INSTRUMENTS :: "(string \<times> instrument) list" where
  "INSTRUMENTS =
   [(''BTC'', \<lparr>name = ''Bitcoin'', category = ''crypto''\<rparr>),
    (''ETH'', \<lparr>name = ''Ethereum'', category = ''crypto''\<rparr>),
    (''SOL'', \<lparr>name = ''Solana'', category = ''crypto''\<rparr>),
    (''XRP'', \<lparr>name = ''Ripple'', category = ''crypto''\<rparr>),
    (''ADA'', \<lparr>name = ''Cardano'', category = ''crypto''\<rparr>),
    (''DOGE'', \<lparr>name = ''Dogecoin'', category = ''crypto''\<rparr>),
    (''DOT'', \<lparr>name = ''Polkadot'', category = ''crypto''\<rparr>),
    (''AVAX'', \<lparr>name = ''Avalanche'', category = ''crypto''\<rparr>),
    (''LINK'', \<lparr>name = ''Chainlink'', category = ''crypto''\<rparr>),
    (''MATIC'', \<lparr>name = ''Polygon'', category = ''crypto''\<rparr>),
    (''LTC'', \<lparr>name = ''Litecoin'', category = ''crypto''\<rparr>),
    (''UNI'', \<lparr>name = ''Uniswap'', category = ''crypto''\<rparr>),
    (''ATOM'', \<lparr>name = ''Cosmos'', category = ''crypto''\<rparr>),
    (''APPLE'', \<lparr>name = ''Apple Inc.'', category = ''stocks''\<rparr>),
    (''MICROSOFT'', \<lparr>name = ''Microsoft'', category = ''stocks''\<rparr>),
    (''GOOGLE'', \<lparr>name = ''Alphabet'', category = ''stocks''\<rparr>),
    (''AMAZON'', \<lparr>name = ''Amazon'', category = ''stocks''\<rparr>),
    (''NVIDIA'', \<lparr>name = ''NVIDIA'', category = ''stocks''\<rparr>),
    (''META'', \<lparr>name = ''Meta'', category = ''stocks''\<rparr>),
    (''TESLA'', \<lparr>name = ''Tesla'', category = ''stocks''\<rparr>),
    (''RELIANCE'', \<lparr>name = ''Reliance'', category = ''stocks''\<rparr>),
    (''TCS'', \<lparr>name = ''TCS'', category = ''stocks''\<rparr>),
    (''INFOSYS'', \<lparr>name = ''Infosys'', category = ''stocks''\<rparr>),
    (''NIFTY50'', \<lparr>name = ''NIFTY 50'', category = ''indices''\<rparr>),
    (''SENSEX'', \<lparr>name = ''SENSEX'', category = ''indices''\<rparr>),
    (''SP500'', \<lparr>name = ''S&P 500'', category = ''indices''\<rparr>),
    (''NASDAQ'', \<lparr>name = ''NASDAQ'', category = ''indices''\<rparr>),
    (''DOWJONES'', \<lparr>name = ''Dow Jones'', category = ''indices''\<rparr>),
    (''BANKNIFTY'', \<lparr>name = ''Bank NIFTY'', category = ''indices''\<rparr>),
    (''GOLD'', \<lparr>name = ''Gold'', category = ''commodities''\<rparr>),
    (''SILVER'', \<lparr>name = ''Silver'', category = ''commodities''\<rparr>),
    (''CRUDE_OIL'', \<lparr>name = ''Crude Oil'', category = ''commodities''\<rparr>),
    (''NATURAL_GAS'', \<lparr>name = ''Natural Gas'', category = ''commodities''\<rparr>)]"

text \<open>\<^verbatim>\<open>INSTRUMENTS[symbol]?.category\<close>. A name that \<^verbatim>\<open>INSTRUMENTS\<close> only inherits
  (\<^verbatim>\<open>constructor\<close>, \<^verbatim>\<open>toString\<close>, ...) resolves to a built-in without a \<^verbatim>\<open>category\<close>, so
  it answers \<^verbatim>\<open>undefined\<close> like a missing one.\<close>

definition info_category :: "string \<Rightarrow> string option" where
  "info_category k = map_option category (map_of INSTRUMENTS k)"

subsection \<open>The price store: a plain object as a dictionary\<close>

text \<open>
  An own property whose name is an array index (the canonical decimal text of an
  integer below \<open>2^32 - 1\<close>) is enumerated before every other one, in ascending numeric
  order; the others follow in the order of their creation.
\<close>

definition is_digit :: "char \<Rightarrow> bool" where
  "is_digit c = (48 \<le> (of_char c :: nat) \<and> (of_char c :: nat) \<le> 57)"

definition decimal_value :: "string \<Rightarrow> nat" where
  "decimal_value k = foldl (\<lambda>acc c. 10 * acc + ((of_char c :: nat) - 48)) 0 k"

definition array_index :: "string \<Rightarrow> nat option" where
  "array_index k =
     (if k \<noteq> [] \<and> list_all is_digit k \<and> (k = ''0'' \<or> hd k \<noteq> CHR ''0'')
         \<and> decimal_value k < 2 ^ 32 - 1
      then Some (decimal_value k) else None)"

fun insert_indexed ::
  "nat \<Rightarrow> string \<Rightarrow> json \<Rightarrow> (string \<times> json) list \<Rightarrow> (string \<times> json) list" where
  "insert_indexed n k v [] = [(k, v)]"
| "insert_indexed n k v ((k', v') # rest) =
     (case array_index k' of
        Some m \<Rightarrow> if m < n then (k', v') # insert_indexed n k v rest
                  else (k, v) # (k', v') # rest
      | None \<Rightarrow> (k, v) # (k', v') # rest)"

text \<open>A new own property \<open>k\<close> takes its place in the enumeration order.\<close>

definition define_own :: "(string \<times> json) list \<Rightarrow> string \<Rightarrow> json \<Rightarrow> (string \<times> json) list" where
  "define_own kvs k v =
     (case array_index k of
        Some n \<Rightarrow> insert_indexed n k v kvs
      | None \<Rightarrow> kvs @ [(k, v)])"

text \<open>An existing own property keeps its place and takes the new value.\<close>

definition replace_own :: "(string \<times> json) list \<Rightarrow> string \<Rightarrow> json \<Rightarrow> (string \<times> json) list" where
  "replace_own kvs k v = map (\<lambda>(k', v'). if k' = k then (k', v) else (k', v')) kvs"

text \<open>
  Whether an assignment to \<^verbatim>\<open>__proto__\<close> reaches the accessor of \<^verbatim>\<open>Object.prototype\<close>:
  not below a \<^verbatim>\<open>null\<close> prototype, and not when the prototype is a parsed object that
  has a \<^verbatim>\<open>__proto__\<close> property of its own (\<^verbatim>\<open>JSON.parse\<close> creates it as a data property).
\<close>

definition setter_inherited :: "prototype \<Rightarrow> bool" where
  "setter_inherited p =
     (case p of
        ObjectPrototype \<Rightarrow> True
      | NullPrototype \<Rightarrow> False
      | ProtoValue (JObj d) \<Rightarrow> map_of d ''__proto__'' = None
      | ProtoValue _ \<Rightarrow> True)"

text \<open>
  \<^verbatim>\<open>state.prices[k] = v\<close>. An own property is overwritten. Otherwise the key
  \<^verbatim>\<open>__proto__\<close> runs the inherited setter, which replaces the prototype when \<open>v\<close> is an
  object, an array or \<^verbatim>\<open>null\<close> and does nothing for any other value; every other key
  becomes a new own property.
\<close>

definition store_set :: "store \<Rightarrow> string \<Rightarrow> json \<Rightarrow> store" where
  "store_set st k v =
     (if map_of (own st) k \<noteq> None then st\<lparr>own := replace_own (own st) k v\<rparr>
      else if k = ''__proto__'' \<and> setter_inherited (proto st) then
        (case v of
           JObj _ \<Rightarrow> st\<lparr>proto := ProtoValue v\<rparr>
         | JArr _ \<Rightarrow> st\<lparr>proto := ProtoValue v\<rparr>
         | JNull \<Rightarrow> st\<lparr>proto := NullPrototype\<rparr>
         | _ \<Rightarrow> st)
      else st\<lparr>own := define_own (own st) k v\<rparr>)"

text \<open>\<^verbatim>\<open>v?.price\<close> for a parsed value \<open>v\<close>.\<close>

fun price_of :: "json \<Rightarrow> json option" where
  "price_of (JObj kvs) = map_of kvs ''price''"
| "price_of _ = None"

text \<open>
  The parsed value, if any, that \<^verbatim>\<open>state.prices[k]\<close> finds through the prototype when
  \<open>k\<close> is not an own property. Whatever else is inherited (a built-in function, the
  length of an array, \<^verbatim>\<open>Object.prototype\<close> itself) has no \<^verbatim>\<open>price\<close>.
\<close>

definition inherited_json :: "prototype \<Rightarrow> string \<Rightarrow> json option" where
  "inherited_json p k =
     (case p of
        ProtoValue (JObj d) \<Rightarrow>
          (case map_of d k of
             Some v \<Rightarrow> Some v
           | None \<Rightarrow> if k = ''__proto__'' then Some (JObj d) else None)
      | ProtoValue (JArr xs) \<Rightarrow>
          (case array_index k of
             Some i \<Rightarrow> if i < length xs then Some (xs ! i) else None
           | None \<Rightarrow> None)
      | _ \<Rightarrow> None)"

text \<open>\<^verbatim>\<open>state.prices[k]?.price\<close>.\<close>

definition oldPrice_of :: "store \<Rightarrow> string \<Rightarrow> json option" where
  "oldPrice_of st k =
     (case map_of (own st) k of
        Some v \<Rightarrow> price_of v
      | None \<Rightarrow> (case inherited_json (proto st) k of
                   Some v \<Rightarrow> price_of v
                 | None \<Rightarrow> None))"

text \<open>The body of \<^verbatim>\<open>renderPriceGrid\<close> up to the list of cards it draws.\<close>

definition pricesToShow :: "app_state \<Rightarrow> (string \<times> json) list" where
  "pricesToShow s =
     (let flt = activeFilter s;
          entries = own (prices s)
      in if flt \<noteq> ''all''
         then filter (\<lambda>(k, _). info_category k = Some flt) entries
         else entries)"

text \<open>
  The rest of \<^verbatim>\<open>renderPriceGrid\<close> draws a card for each of these entries with
  \<^verbatim>\<open>createPriceCardHTML(symbol, data)\<close>. What follows is when that function throws; it is a
  \<^verbatim>\<open>TypeError\<close> each time.

  Whether some object reached from a value through arrays only has a property \<open>k\<close> of
  its own:
\<close>

fun has_own_deep :: "string \<Rightarrow> json \<Rightarrow> bool" where
  "has_own_deep k (JObj kvs) = (map_of kvs k \<noteq> None)"
| "has_own_deep k (JArr xs) = (\<exists>x \<in> set xs. has_own_deep k x)"
| "has_own_deep k _ = False"

text \<open>
  \<^verbatim>\<open>formatPrice(price, symbol)\<close> for a truthy price or \<open>0\<close>: the comparisons
  \<^verbatim>\<open>price >= 1000\<close> and \<^verbatim>\<open>price >= 1\<close> convert an object or an array to a primitive, which
  throws as \<^verbatim>\<open>ToString\<close> does; then \<^verbatim>\<open>price.toLocaleString(...)\<close> is called, which is not a
  function when the object has a \<^verbatim>\<open>toLocaleString\<close> property of its own, and which an
  array passes on to its elements.
\<close>

definition formatPrice_throws :: "json \<Rightarrow> bool" where
  "formatPrice_throws price =
     (to_string price = None \<or> has_own_deep ''toLocaleString'' price)"

text \<open>\<^verbatim>\<open>formatTime(date)\<close> for a truthy date: \<^verbatim>\<open>new Date(date)\<close> converts an object or an
  array to a primitive.\<close>

definition formatTime_throws :: "json \<Rightarrow> bool" where
  "formatTime_throws date = (to_string date = None)"

text \<open>The names that every plain object, and so \<^verbatim>\<open>INSTRUMENTS\<close>, inherits from
  \<^verbatim>\<open>Object.prototype\<close>.\<close>

definition Object_prototype_names :: "string list" where
  "Object_prototype_names =
     [''constructor'', ''__defineGetter__'', ''__defineSetter__'', ''hasOwnProperty'',
      ''__lookupGetter__'', ''__lookupSetter__'', ''isPrototypeOf'', ''propertyIsEnumerable'',
      ''toString'', ''valueOf'', ''__proto__'', ''toLocaleString'']"

text \<open>
  \<^verbatim>\<open>createPriceCardHTML\<close> throws on \<^verbatim>\<open>data.price\<close> when the quote is \<^verbatim>\<open>null\<close>; in
  \<^verbatim>\<open>formatPrice(data.price || 0, symbol)\<close>; on \<^verbatim>\<open>info.category.toUpperCase()\<close> when
  \<^verbatim>\<open>INSTRUMENTS[symbol]\<close> is an inherited built-in, which is truthy and has no category;
  and in \<^verbatim>\<open>formatTime(data.timestamp)\<close> when the timestamp is truthy.
\<close>

definition createPriceCardHTML_throws :: "string \<Rightarrow> json \<Rightarrow> bool" where
  "createPriceCardHTML_throws k data =
     (case get_prop data ''timestamp'' of
        Inl e \<Rightarrow> True
      | Inr ts \<Rightarrow>
          formatPrice_throws (or_else (price_of data) (JNum ''0''))
          \<or> (map_of INSTRUMENTS k = None \<and> k \<in> set Object_prototype_names)
          \<or> (case ts of None \<Rightarrow> False | Some d \<Rightarrow> truthy d \<and> formatTime_throws d))"

text \<open>\<^verbatim>\<open>renderPriceGrid\<close>: the error it throws, if any, and the call in the trace.\<close>

definition renderPriceGrid :: "app_state \<Rightarrow> js_error option \<times> app_state" where
  "renderPriceGrid s =
     ((if \<exists>(k, data) \<in> set (pricesToShow s). createPriceCardHTML_throws k data
       then Some TypeError else None),
      s\<lparr>ui := ui s @ [RenderPriceGrid]\<rparr>)"

subsection \<open>The WebSocket connection\<close>

text \<open>\<^verbatim>\<open>connectWebSocket\<close>: nothing happens while \<^verbatim>\<open>state.ws\<close> is open; otherwise a new
  WebSocket object is created (it starts out connecting) and \<^verbatim>\<open>state.ws\<close> refers to it.
  The four handlers it installs are the same closures over \<^verbatim>\<open>state\<close> for every socket;
  they follow as functions of their own.\<close>

definition connectWebSocket :: "app_state \<Rightarrow> app_state" where
  "connectWebSocket s =
     (if (case ws s of
            None \<Rightarrow> False
          | Some i \<Rightarrow> i < length (sockets s) \<and> sockets s ! i = OPEN)
      then s
      else s\<lparr>ws := Some (length (sockets s)), sockets := sockets s @ [CONNECTING]\<rparr>)"

definition onopen :: "app_state \<Rightarrow> app_state" where
  "onopen s = s\<lparr>console := console s @ [Log ''WebSocket connected''],
                 isConnected := True,
                 ui := ui s @ [UpdateConnectionStatus True]\<rparr>"

definition onclose :: "app_state \<Rightarrow> app_state" where
  "onclose s = s\<lparr>console := console s @ [Log ''WebSocket disconnected''],
                  isConnected := False,
                  ui := ui s @ [UpdateConnectionStatus False],
                  timers := timers s @ [RECONNECT_DELAY]\<rparr>"

definition onerror :: "app_state \<Rightarrow> app_state" where
  "onerror s = s\<lparr>console := console s @ [ErrorLogEvent ''WebSocket error:'']\<rparr>"

text \<open>The decimal text of a natural number, for the keys of an array.\<close>

fun show_nat :: "nat \<Rightarrow> string" where
  "show_nat n =
     (if n < 10 then [char_of (48 + n)]
      else show_nat (n div 10) @ [char_of (48 + n mod 10)])"

declare show_nat.simps [simp del]

text \<open>\<^verbatim>\<open>Object.entries(v)\<close>: it throws on \<^verbatim>\<open>undefined\<close> and \<^verbatim>\<open>null\<close> (\<open>None\<close>), lists the
  elements of an array and the characters of a string under their indices, and finds
  nothing in a number or a boolean.\<close>

fun object_entries :: "json option \<Rightarrow> (string \<times> json) list option" where
  "object_entries None = None"
| "object_entries (Some JNull) = None"
| "object_entries (Some (JObj kvs)) = Some kvs"
| "object_entries (Some (JArr xs)) = Some (zip (map show_nat [0..<length xs]) xs)"
| "object_entries (Some (JStr cs)) =
     Some (zip (map show_nat [0..<length cs]) (map (\<lambda>c. JStr [c]) cs))"
| "object_entries (Some (JNum _)) = Some []"
| "object_entries (Some (JBool _)) = Some []"

text \<open>
  The \<^verbatim>\<open>try\<close> block of \<^verbatim>\<open>ws.onmessage\<close>. The argument \<open>parsed\<close> is the result of
  \<^verbatim>\<open>JSON.parse(event.data)\<close>, \<open>None\<close> when it throws. The argument \<open>card_err\<close> is the error
  with which \<^verbatim>\<open>updatePriceCard\<close> would end, if any: the function looks for the card of
  the symbol in the document and formats the new price only when it finds one. The
  result is the error thrown inside the block, if any, and the state reached. A symbol
  that cannot be turned into a property key throws before the store is touched.
\<close>

definition onmessage_try ::
  "js_error option \<Rightarrow> json option \<Rightarrow> app_state \<Rightarrow> js_error option \<times> app_state" where
  "onmessage_try card_err parsed s =
     (case parsed of
        None \<Rightarrow> (Some SyntaxError, s)
      | Some data \<Rightarrow>
          (case get_prop data ''type'' of
             Inl e \<Rightarrow> (Some e, s)
           | Inr ty \<Rightarrow>
               if ty = Some (JStr ''snapshot'') then
                 (case object_entries (case get_prop data ''prices'' of
                                         Inl e \<Rightarrow> None | Inr p \<Rightarrow> p) of
                    None \<Rightarrow> (Some TypeError, s)
                  | Some kvs \<Rightarrow>
                      renderPriceGrid
                        (s\<lparr>prices := fold (\<lambda>(k, priceData) st. store_set st k priceData)
                                         kvs (prices s)\<rparr>))
               else if ty = Some (JStr ''heartbeat'') then (None, s)
               else
                 (case get_prop data ''symbol'' of
                    Inl e \<Rightarrow> (Some e, s)
                  | Inr None \<Rightarrow> (None, s)
                  | Inr (Some sy) \<Rightarrow>
                      if truthy sy then
                        (case to_string sy of
                           None \<Rightarrow> (Some TypeError, s)
                         | Some k \<Rightarrow>
                             (let oldPrice = oldPrice_of (prices s) k
                              in (card_err, s\<lparr>prices := store_set (prices s) k data,
                                          ui := ui s @ [UpdatePriceCard sy data oldPrice]\<rparr>)))
                      else (None, s))))"

text \<open>\<^verbatim>\<open>ws.onmessage\<close>: the \<^verbatim>\<open>catch\<close> logs whatever the block threw; nothing leaves the
  handler.\<close>

definition onmessage :: "js_error option \<Rightarrow> json option \<Rightarrow> app_state \<Rightarrow> app_state" where
  "onmessage card_err parsed s =
     (case onmessage_try card_err parsed s of
        (None, s1) \<Rightarrow> s1
      | (Some error, s1) \<Rightarrow>
          s1\<lparr>console := console s1 @ [ErrorLog ''WebSocket message error:'' error]\<rparr>)"

subsection \<open>Runs of the connection\<close>

text \<open>
  What the browser does around the handlers. A socket opens once, from connecting; it
  delivers its close event once, and is closed from then on; messages arrive on an open
  socket (with what the document makes of \<^verbatim>\<open>updatePriceCard\<close>); a pending timer fires
  and calls \<^verbatim>\<open>connectWebSocket\<close>. An event that the browser cannot deliver in a state has
  no successor (\<open>None\<close>).
\<close>

datatype event =
    SocketOpens nat
  | SocketCloses nat
  | SocketMessage nat "json option" "js_error option"
  | SocketError nat
  | TimerFires nat

definition remove_nth :: "nat \<Rightarrow> 'a list \<Rightarrow> 'a list" where
  "remove_nth j xs = take j xs @ drop (Suc j) xs"

fun step :: "event \<Rightarrow> app_state \<Rightarrow> app_state option" where
  "step (SocketOpens i) s =
     (if i < length (sockets s) \<and> sockets s ! i = CONNECTING
      then Some (onopen (s\<lparr>sockets := (sockets s)[i := OPEN]\<rparr>)) else None)"
| "step (SocketCloses i) s =
     (if i < length (sockets s) \<and> sockets s ! i \<noteq> CLOSED
      then Some (onclose (s\<lparr>sockets := (sockets s)[i := CLOSED]\<rparr>)) else None)"
| "step (SocketMessage i parsed card_err) s =
     (if i < length (sockets s) \<and> sockets s ! i = OPEN
      then Some (onmessage card_err parsed s) else None)"
| "step (SocketError i) s =
     (if i < length (sockets s) \<and> sockets s ! i \<noteq> CLOSED
      then Some (onerror s) else None)"
| "step (TimerFires j) s =
     (if j < length (timers s)
      then Some (connectWebSocket (s\<lparr>timers := remove_nth j (timers s)\<rparr>)) else None)"

fun run :: "event list \<Rightarrow> app_state \<Rightarrow> app_state option" where
  "run [] s = Some s"
| "run (e # es) s = (case step e s of None \<Rightarrow> None | Some s1 \<Rightarrow> run es s1)"

text \<open>The sockets that can still deliver a close event.\<close>

definition live_sockets :: "app_state \<Rightarrow> nat" where
  "live_sockets s = length (filter (\<lambda>r. r \<noteq> CLOSED) (sockets s))"

subsection \<open>The order of enumeration\<close>

text \<open>
  \<open>index_order k k'\<close>: the key \<open>k\<close> may stand before the key \<open>k'\<close> in the enumeration of
  an object. Before an array index stand only smaller array indices; before any other
  key, every key may stand.
\<close>

definition index_order :: "string \<Rightarrow> string \<Rightarrow> bool" where
  "index_order k k' =
     (case array_index k' of
        None \<Rightarrow> True
      | Some n \<Rightarrow> (case array_index k of None \<Rightarrow> False | Some m \<Rightarrow> m < n))"

text \<open>The entries of a store have distinct keys, the array indices first and in
  ascending order.\<close>

definition store_ordered :: "store \<Rightarrow> bool" where
  "store_ordered st =
     (distinct (map fst (own st)) \<and> sorted_wrt index_order (map fst (own st)))"

subsection \<open>The specification's reading, and inputs for the examples\<close>

text \<open>
  Following the specification's words for \<^verbatim>\<open>filteredView(category)\<close>: the entries of the
  store whose catalogue category is the filter, in the order of the catalogue.
\<close>

definition filteredView_spec :: "string \<Rightarrow> store \<Rightarrow> (string \<times> json) list" where
  "filteredView_spec flt st =
     List.map_filter
       (\<lambda>(k, info). if category info = flt then map_option (Pair k) (map_of (own st) k)
                     else None)
       INSTRUMENTS"

text \<open>
  Following the specification's words for the frames that are nothing it knows: neither
  \<^verbatim>\<open>type == "snapshot"\<close>, nor \<^verbatim>\<open>type == "heartbeat"\<close>, nor a \<^verbatim>\<open>symbol\<close> field present. Text
  that does not parse, and parsed values that are not objects, have no fields at all.
\<close>

fun unrecognised :: "json option \<Rightarrow> bool" where
  "unrecognised None = True"
| "unrecognised (Some (JObj kvs)) =
     (map_of kvs ''type'' \<noteq> Some (JStr ''snapshot'')
      \<and> map_of kvs ''type'' \<noteq> Some (JStr ''heartbeat'')
      \<and> map_of kvs ''symbol'' = None)"
| "unrecognised (Some _) = True"

definition btc_quote :: json where
  "btc_quote = JObj [(''price'', JNum ''65000''), (''timestamp'', JStr ''t0'')]"

definition snapshot_frame :: json where
  "snapshot_frame = JObj [(''type'', JStr ''snapshot''), (''prices'', JObj [(''BTC'', btc_quote)])]"

definition btc_delta :: json where
  "btc_delta = JObj [(''symbol'', JStr ''BTC''), (''price'', JNum ''65500''),
                     (''timestamp'', JStr ''t1'')]"

definition eth_delta :: json where
  "eth_delta = JObj [(''symbol'', JStr ''ETH''), (''price'', JNum ''3200''),
                     (''timestamp'', JStr ''t1'')]"

definition unknown_frame :: json where
  "unknown_frame = JObj [(''foo'', JNum ''1'')]"

text \<open>The state after the snapshot of the specification's scenario.\<close>

definition after_snapshot :: app_state where
  "after_snapshot = onmessage None (Some snapshot_frame) initial_state"

text \<open>The crypto tab is selected; a quote for ETH arrives, then one for BTC.\<close>

definition eth_then_btc :: app_state where
  "eth_then_btc = onmessage None (Some btc_delta)
                    (onmessage None (Some eth_delta)
                       (initial_state\<lparr>activeFilter := ''crypto''\<rparr>))"

text \<open>A store that holds a symbol the catalogue does not know, under two filters.\<close>

definition with_unlisted :: "string \<Rightarrow> app_state" where
  "with_unlisted flt =
     initial_state\<lparr>activeFilter := flt,
                   prices := \<lparr>own = [(''PEPE'', JObj [(''price'', JNum ''0.5'')]),
                                     (''BTC'', btc_quote)],
                              proto = ObjectPrototype\<rparr>\<rparr>"

definition rule7 :: alert_rule where
  "rule7 = \<lparr>id_alert = 7, symbol = ''BTC'', condition = ''above'', target_price = ''70000'',
            active = True, triggered_count = 0, notification_types = ''email''\<rparr>"

definition rule9 :: alert_rule where
  "rule9 = \<lparr>id_alert = 9, symbol = ''GOLD'', condition = ''below'', target_price = ''1900'',
            active = False, triggered_count = 2, notification_types = ''email,sms''\<rparr>"

text \<open>A session restored from a saved token, with one cached rule; and the body of a
  401.\<close>

definition restored_session :: app_state where
  "restored_session =
     initial_state\<lparr>token := Some ''T'', localStorage_token := Some ''T'', alerts := [rule7]\<rparr>"

definition not_authenticated :: json where
  "not_authenticated = JObj [(''detail'', JStr ''Could not validate credentials'')]"

text \<open>\<^verbatim>\<open>state.ws\<close> is the one socket, and it is open.\<close>

definition connected_state :: app_state where
  "connected_state = initial_state\<lparr>ws := Some 0, sockets := [OPEN], isConnected := True\<rparr>"

text \<open>The first socket has opened; and it has closed again.\<close>

definition after_open :: app_state where
  "after_open = onopen ((connectWebSocket initial_state)\<lparr>sockets := [OPEN]\<rparr>)"

definition after_close :: app_state where
  "after_close = onclose (after_open\<lparr>sockets := [CLOSED]\<rparr>)"

text \<open>Quotes arrive for B, for 10 and for 9, in this order.\<close>

definition quote_for :: "json \<Rightarrow> json" where
  "quote_for sy = JObj [(''symbol'', sy), (''price'', JNum ''1'')]"

definition b_then_10 :: app_state where
  "b_then_10 = onmessage None (Some (quote_for (JStr ''10'')))
                 (onmessage None (Some (quote_for (JStr ''B''))) initial_state)"

text \<open>A snapshot whose quote for BTC is \<^verbatim>\<open>null\<close>.\<close>

definition null_snapshot :: json where
  "null_snapshot = JObj [(''type'', JStr ''snapshot''), (''prices'', JObj [(''BTC'', JNull)])]"

text \<open>A profile without an email.\<close>

definition nameless :: user_profile where
  "nameless = \<lparr>email = [], user_id = 1\<rparr>"

section \<open>Properties\<close>

subsection \<open>Helper facts\<close>

lemma apiRequest_fails:
  "apiRequest_try out = Inl e \<Longrightarrow>
   apiRequest out s = (Inl e, s\<lparr>console := console s @ [ErrorLog ''API Error:'' e]\<rparr>)"
  by (simp add: apiRequest_def)

lemma apiRequest_succeeds:
  "apiRequest_try out = Inr v \<Longrightarrow> apiRequest out s = (Inr v, s)"
  by (simp add: apiRequest_def)

lemma array_index_digit: "array_index k = Some n \<Longrightarrow> k \<noteq> [] \<and> is_digit (hd k)"
  by (cases k) (auto simp: array_index_def split: if_splits)

lemma array_index_letter: "k \<noteq> [] \<Longrightarrow> \<not> is_digit (hd k) \<Longrightarrow> array_index k = None"
  using array_index_digit by (cases "array_index k") auto

lemma catalogue_keys:
  "fst ` set INSTRUMENTS = {''BTC'', ''ETH'', ''SOL'', ''XRP'', ''ADA'', ''DOGE'', ''DOT'', ''AVAX'',
     ''LINK'', ''MATIC'', ''LTC'', ''UNI'', ''ATOM'', ''APPLE'', ''MICROSOFT'', ''GOOGLE'', ''AMAZON'',
     ''NVIDIA'', ''META'', ''TESLA'', ''RELIANCE'', ''TCS'', ''INFOSYS'', ''NIFTY50'', ''SENSEX'',
     ''SP500'', ''NASDAQ'', ''DOWJONES'', ''BANKNIFTY'', ''GOLD'', ''SILVER'', ''CRUDE_OIL'',
     ''NATURAL_GAS''}"
  unfolding INSTRUMENTS_def by simp

text \<open>No symbol of the catalogue is an array index or the key \<^verbatim>\<open>__proto__\<close>.\<close>

lemma catalogue_key_plain:
  assumes "map_of INSTRUMENTS k = Some info"
  shows "array_index k = None \<and> k \<noteq> ''__proto__''"
proof -
  from assms have "k \<in> fst ` set INSTRUMENTS"
    by (metis map_of_SomeD fst_conv image_eqI)
  then have "k \<noteq> [] \<and> \<not> is_digit (hd k) \<and> k \<noteq> ''__proto__''"
    unfolding catalogue_keys by (auto simp: is_digit_def)
  then show ?thesis
    by (simp add: array_index_letter)
qed

text \<open>An array index is the decimal text of its number, so no two keys are the same
  array index.\<close>

lemma digit_char: "is_digit c \<Longrightarrow> char_of (48 + ((of_char c :: nat) - 48)) = c"
  by (simp add: is_digit_def)

lemma digit_val_less: "is_digit c \<Longrightarrow> (of_char c :: nat) - 48 < 10"
  by (auto simp: is_digit_def)

lemma decimal_value_snoc:
  "decimal_value (ks @ [c]) = 10 * decimal_value ks + ((of_char c :: nat) - 48)"
  by (simp add: decimal_value_def)

lemma show_nat_decimal:
  "ks \<noteq> [] \<Longrightarrow> list_all is_digit ks \<Longrightarrow> hd ks \<noteq> CHR ''0'' \<Longrightarrow>
   1 \<le> decimal_value ks \<and> show_nat (decimal_value ks) = ks"
proof (induction ks rule: rev_induct)
  case Nil
  then show ?case by simp
next
  case (snoc c ks)
  show ?case
  proof (cases "ks = []")
    case True
    with snoc.prems have d: "is_digit c" and nz: "c \<noteq> CHR ''0''" by auto
    have "(of_char c = (of_char CHR ''0'' :: nat)) = (c = CHR ''0'')"
      by (rule of_char_eq_iff)
    with nz have "(of_char c :: nat) \<noteq> 48" by simp
    moreover from d have "48 \<le> (of_char c :: nat)" by (simp add: is_digit_def)
    ultimately have "1 \<le> (of_char c :: nat) - 48" by linarith
    with d True show ?thesis
      using digit_val_less[OF d] digit_char[OF d]
      by (simp add: decimal_value_def show_nat.simps)
  next
    case False
    with snoc.prems have ks: "list_all is_digit ks" "hd ks \<noteq> CHR ''0''" and d: "is_digit c"
      by auto
    from snoc.IH[OF False ks] have pos: "1 \<le> decimal_value ks"
      and ih: "show_nat (decimal_value ks) = ks" by auto
    let ?v = "10 * decimal_value ks + ((of_char c :: nat) - 48)"
    from pos have ge: "\<not> ?v < 10" by simp
    have dv: "?v div 10 = decimal_value ks" and md: "?v mod 10 = (of_char c :: nat) - 48"
      using digit_val_less[OF d] by auto
    have "show_nat ?v = show_nat (?v div 10) @ [char_of (48 + ?v mod 10)]"
      using ge by (subst show_nat.simps) simp
    then have "show_nat ?v = ks @ [c]"
      using ih digit_char[OF d] by (simp only: dv md)
    with pos show ?thesis
      by (simp add: decimal_value_snoc)
  qed
qed

lemma array_index_show: "array_index k = Some n \<Longrightarrow> show_nat n = k"
proof -
  assume a: "array_index k = Some n"
  then have k: "k \<noteq> []" "list_all is_digit k" "k = ''0'' \<or> hd k \<noteq> CHR ''0''"
    and n: "n = decimal_value k"
    by (auto simp: array_index_def split: if_splits)
  show ?thesis
  proof (cases "k = ''0''")
    case True
    have "is_digit CHR ''0''" by (simp add: is_digit_def)
    from digit_char[OF this] have "char_of (48 :: nat) = CHR ''0''" by simp
    with True show ?thesis using n by (simp add: decimal_value_def show_nat.simps)
  next
    case False
    with k show ?thesis using show_nat_decimal n by blast
  qed
qed

lemma array_index_inj:
  "array_index k = Some n \<Longrightarrow> array_index k' = Some n \<Longrightarrow> k = k'"
  using array_index_show by metis

lemma map_of_replace_own:
  "map_of (replace_own kvs k v) k' =
     (if k' = k \<and> map_of kvs k \<noteq> None then Some v else map_of kvs k')"
  by (induction kvs) (auto simp: replace_own_def)

lemma keys_replace_own: "map fst (replace_own kvs k v) = map fst kvs"
  by (induction kvs) (auto simp: replace_own_def)

text \<open>Where a new own property goes: behind the longest run of entries at the front
  that may stand before it.\<close>

lemma insert_indexed_closed:
  "insert_indexed n k v kvs =
     takeWhile (\<lambda>(k', q). case array_index k' of None \<Rightarrow> False | Some m \<Rightarrow> m < n) kvs
     @ [(k, v)]
     @ dropWhile (\<lambda>(k', q). case array_index k' of None \<Rightarrow> False | Some m \<Rightarrow> m < n) kvs"
  by (induction kvs) (auto split: option.splits)

lemma define_own_closed:
  "define_own kvs k v =
     takeWhile (\<lambda>(k', q). index_order k' k) kvs @ [(k, v)]
     @ dropWhile (\<lambda>(k', q). index_order k' k) kvs"
proof (cases "array_index k")
  case None
  then have "\<forall>p \<in> set kvs. (\<lambda>(k', q). index_order k' k) p"
    by (auto simp: index_order_def)
  then have "takeWhile (\<lambda>(k', q). index_order k' k) kvs = kvs"
    and "dropWhile (\<lambda>(k', q). index_order k' k) kvs = []"
    by (simp_all only: takeWhile_eq_all_conv dropWhile_eq_Nil_conv)
  with None show ?thesis
    by (simp add: define_own_def del: takeWhile_eq_all_conv dropWhile_eq_Nil_conv)
next
  case (Some n)
  then have "(\<lambda>(k', q :: json). index_order k' k)
               = (\<lambda>(k', q). case array_index k' of None \<Rightarrow> False | Some m \<Rightarrow> m < n)"
    by (auto simp: index_order_def)
  with Some show ?thesis by (simp add: define_own_def insert_indexed_closed)
qed

lemma keys_define_own:
  "map fst (define_own kvs k v) =
     takeWhile (\<lambda>k'. index_order k' k) (map fst kvs) @ [k]
     @ dropWhile (\<lambda>k'. index_order k' k) (map fst kvs)"
proof -
  have "(\<lambda>(k', q :: json). index_order k' k) = (\<lambda>k'. index_order k' k) \<circ> fst"
    by auto
  then show ?thesis
    by (simp add: define_own_closed takeWhile_map dropWhile_map)
qed

lemma index_order_after:
  assumes "\<not> index_order x k" and "x \<noteq> k"
  shows "index_order k x \<and> (\<forall>y. index_order x y \<longrightarrow> index_order k y)"
proof -
  from assms(1) obtain n where n: "array_index k = Some n"
    by (auto simp: index_order_def split: option.splits)
  show ?thesis
  proof (cases "array_index x")
    case None
    with n show ?thesis by (auto simp: index_order_def split: option.splits)
  next
    case (Some m)
    with assms(1) n have "\<not> m < n" by (simp add: index_order_def)
    moreover from Some n assms(2) have "m \<noteq> n" using array_index_inj by blast
    ultimately have "n < m" by simp
    with Some n show ?thesis by (auto simp: index_order_def split: option.splits)
  qed
qed

lemma sorted_insert_key:
  "sorted_wrt index_order ks \<Longrightarrow> k \<notin> set ks \<Longrightarrow>
   sorted_wrt index_order
     (takeWhile (\<lambda>k'. index_order k' k) ks @ [k] @ dropWhile (\<lambda>k'. index_order k' k) ks)"
proof (induction ks)
  case Nil
  then show ?case by simp
next
  case (Cons x xs)
  show ?case
  proof (cases "index_order x k")
    case True
    have "set (takeWhile (\<lambda>k'. index_order k' k) xs) \<subseteq> set xs"
      "set (dropWhile (\<lambda>k'. index_order k' k) xs) \<subseteq> set xs"
      by (auto dest: set_takeWhileD set_dropWhileD)
    with Cons True show ?thesis by auto
  next
    case False
    with Cons.prems index_order_after[of x k] show ?thesis by auto
  qed
qed

lemma distinct_insert_key:
  "distinct ks \<Longrightarrow> k \<notin> set ks \<Longrightarrow> distinct (takeWhile P ks @ [k] @ dropWhile P ks)"
proof -
  assume d: "distinct ks" and k: "k \<notin> set ks"
  from d have "distinct (takeWhile P ks @ dropWhile P ks)"
    by (simp only: takeWhile_dropWhile_id)
  then have "distinct (takeWhile P ks) \<and> distinct (dropWhile P ks)
      \<and> set (takeWhile P ks) \<inter> set (dropWhile P ks) = {}"
    by (simp only: distinct_append)
  moreover have "set (takeWhile P ks) \<subseteq> set ks" "set (dropWhile P ks) \<subseteq> set ks"
    by (auto dest: set_takeWhileD set_dropWhileD)
  ultimately show ?thesis using k by auto
qed

lemma store_set_known_key:
  "map_of (own st) k = Some old \<Longrightarrow>
   store_set st k v = st\<lparr>own := replace_own (own st) k v\<rparr>"
  by (simp add: store_set_def)

lemma store_set_new_key:
  "map_of (own st) k = None \<Longrightarrow>
   own (store_set st k v) =
     (if k = ''__proto__'' \<and> setter_inherited (proto st) then own st
      else define_own (own st) k v)"
  by (auto simp: store_set_def split: json.splits)

lemma store_set_ordered: "store_ordered st \<Longrightarrow> store_ordered (store_set st k v)"
proof (cases "map_of (own st) k")
  case None
  assume o: "store_ordered st"
  from None have k: "k \<notin> set (map fst (own st))"
    by (simp add: map_of_eq_None_iff)
  from o k have "distinct (map fst (define_own (own st) k v))"
    and "sorted_wrt index_order (map fst (define_own (own st) k v))"
    unfolding keys_define_own store_ordered_def
    by (blast intro: distinct_insert_key sorted_insert_key)+
  with o show ?thesis
    by (simp add: store_ordered_def store_set_new_key[OF None])
next
  case (Some old)
  assume "store_ordered st"
  with Some show ?thesis
    by (simp add: store_set_def store_ordered_def keys_replace_own)
qed

lemma fold_store_set_ordered:
  "store_ordered st \<Longrightarrow>
   store_ordered (fold (\<lambda>(k, priceData) st. store_set st k priceData) kvs st)"
  by (induction kvs arbitrary: st) (auto simp: store_set_ordered)

lemma onmessage_ordered:
  "store_ordered (prices s) \<Longrightarrow> store_ordered (prices (onmessage card_err parsed s))"
  by (auto simp: onmessage_def onmessage_try_def renderPriceGrid_def Let_def
      fold_store_set_ordered store_set_ordered
      split: option.splits sum.splits prod.splits if_splits)

text \<open>The states of the examples.\<close>

lemma btc_quote_draws: "\<not> createPriceCardHTML_throws ''BTC'' btc_quote"
  by (simp add: createPriceCardHTML_throws_def btc_quote_def formatPrice_throws_def
      formatTime_throws_def or_else_def INSTRUMENTS_def)

lemma after_snapshot_state:
  "after_snapshot =
     initial_state\<lparr>prices := \<lparr>own = [(''BTC'', btc_quote)], proto = ObjectPrototype\<rparr>,
                   ui := [RenderPriceGrid]\<rparr>"
  using btc_quote_draws
  by (simp add: after_snapshot_def onmessage_def onmessage_try_def snapshot_frame_def
      initial_state_def store_set_def define_own_def array_index_letter is_digit_def
      renderPriceGrid_def pricesToShow_def)

lemma after_snapshot_prices:
  "prices after_snapshot = \<lparr>own = [(''BTC'', btc_quote)], proto = ObjectPrototype\<rparr>"
  by (simp add: after_snapshot_state)

lemma eth_then_btc_own:
  "own (prices eth_then_btc) = [(''ETH'', eth_delta), (''BTC'', btc_delta)]"
  by (simp add: eth_then_btc_def onmessage_def onmessage_try_def eth_delta_def btc_delta_def
      initial_state_def store_set_def define_own_def oldPrice_of_def inherited_json_def
      array_index_letter is_digit_def Let_def)

lemma b_then_10_prices:
  "prices b_then_10 =
     \<lparr>own = [(''10'', quote_for (JStr ''10'')), (''B'', quote_for (JStr ''B''))],
      proto = ObjectPrototype\<rparr>"
  by (simp add: b_then_10_def onmessage_def onmessage_try_def quote_for_def
      initial_state_def store_set_def define_own_def oldPrice_of_def inherited_json_def
      array_index_def decimal_value_def is_digit_def Let_def)

text \<open>A message changes neither the sockets, nor the timers, nor \<^verbatim>\<open>state.ws\<close>.\<close>

lemma onmessage_connection:
  "sockets (onmessage card_err parsed s) = sockets s
   \<and> timers (onmessage card_err parsed s) = timers s
   \<and> ws (onmessage card_err parsed s) = ws s
   \<and> isConnected (onmessage card_err parsed s) = isConnected s"
  by (auto simp: onmessage_def onmessage_try_def renderPriceGrid_def Let_def
      split: option.splits sum.splits prod.splits if_splits)

lemma live_update_same:
  "i < length xs \<Longrightarrow> xs ! i \<noteq> CLOSED \<Longrightarrow> y \<noteq> CLOSED \<Longrightarrow>
   length (filter (\<lambda>r. r \<noteq> CLOSED) (xs[i := y])) = length (filter (\<lambda>r. r \<noteq> CLOSED) xs)"
proof (induction xs arbitrary: i)
  case Nil
  then show ?case by simp
next
  case (Cons x xs)
  then show ?case by (cases i) auto
qed

lemma live_update_closed:
  "i < length xs \<Longrightarrow> xs ! i \<noteq> CLOSED \<Longrightarrow>
   Suc (length (filter (\<lambda>r. r \<noteq> CLOSED) (xs[i := CLOSED])))
     = length (filter (\<lambda>r. r \<noteq> CLOSED) xs)"
proof (induction xs arbitrary: i)
  case Nil
  then show ?case by simp
next
  case (Cons x xs)
  then show ?case by (cases i) auto
qed

lemma no_live_all_closed:
  "length (filter (\<lambda>r. r \<noteq> CLOSED) xs) = 0 \<Longrightarrow> i < length xs \<Longrightarrow> xs ! i = CLOSED"
  by (metis (mono_tags, lifting) filter_False length_0_conv filter_empty_conv nth_mem)

text \<open>
  In a run, the pending timers and the sockets that have not closed yet are one
  together: a close event trades a socket for a timer, a timer that fires finds no open
  socket and trades itself for a new one.
\<close>

lemma step_invariant:
  assumes "step e s = Some s1" and "length (timers s) + live_sockets s = 1"
  shows "length (timers s1) + live_sockets s1 = 1"
proof (cases e)
  case (SocketOpens i)
  with assms show ?thesis
    by (auto simp: onopen_def live_sockets_def live_update_same split: if_splits)
next
  case (SocketCloses i)
  with assms have i: "i < length (sockets s)" "sockets s ! i \<noteq> CLOSED"
    and s1: "s1 = onclose (s\<lparr>sockets := (sockets s)[i := CLOSED]\<rparr>)"
    by (auto split: if_splits)
  have "Suc (live_sockets s1) = live_sockets s"
    using live_update_closed[OF i] by (simp add: s1 onclose_def live_sockets_def)
  moreover have "length (timers s1) = Suc (length (timers s))"
    by (simp add: s1 onclose_def)
  ultimately show ?thesis using assms(2) by arith
next
  case (SocketMessage i parsed card_err)
  with assms show ?thesis
    by (auto simp: live_sockets_def onmessage_connection split: if_splits)
next
  case (SocketError i)
  with assms show ?thesis
    by (auto simp: onerror_def live_sockets_def split: if_splits)
next
  case (TimerFires j)
  with assms have j: "j < length (timers s)"
    and s1: "s1 = connectWebSocket (s\<lparr>timers := remove_nth j (timers s)\<rparr>)"
    by (auto split: if_splits)
  from j assms(2) have len: "length (timers s) = 1" and live: "live_sockets s = 0" by auto
  from j len have rem: "remove_nth j (timers s) = []" by (simp add: remove_nth_def)
  have closed: "\<And>i. i < length (sockets s) \<Longrightarrow> sockets s ! i = CLOSED"
    using live no_live_all_closed by (simp add: live_sockets_def)
  show ?thesis
    using live closed
    by (auto simp: s1 rem connectWebSocket_def live_sockets_def split: option.splits)
qed

lemma run_invariant:
  "run es s = Some s1 \<Longrightarrow> length (timers s) + live_sockets s = 1 \<Longrightarrow>
   length (timers s1) + live_sockets s1 = 1"
proof (induction es arbitrary: s)
  case Nil
  then show ?case by simp
next
  case (Cons e es)
  then show ?case by (auto split: option.splits dest: step_invariant)
qed

lemma run_from_init:
  assumes "sockets s0 = []" and "timers s0 = []" and "run es (connectWebSocket s0) = Some s1"
  shows "length (timers s1) + live_sockets s1 = 1"
proof -
  from assms(1,2)
  have "length (timers (connectWebSocket s0)) + live_sockets (connectWebSocket s0) = 1"
    by (simp add: connectWebSocket_def live_sockets_def split: option.splits)
  with assms(3) show ?thesis by (rule run_invariant)
qed

lemma live_socket_counts:
  "i < length (sockets s) \<Longrightarrow> sockets s ! i \<noteq> CLOSED \<Longrightarrow> 1 \<le> live_sockets s"
proof -
  assume "i < length (sockets s)" and "sockets s ! i \<noteq> CLOSED"
  then have "sockets s ! i \<in> set (filter (\<lambda>r. r \<noteq> CLOSED) (sockets s))" by simp
  then have "filter (\<lambda>r. r \<noteq> CLOSED) (sockets s) \<noteq> []" by (metis empty_iff empty_set)
  then show ?thesis by (simp add: live_sockets_def Suc_le_eq)
qed

lemma run_open:
  "run [SocketOpens 0] (connectWebSocket initial_state) = Some after_open"
  by (simp add: after_open_def connectWebSocket_def initial_state_def)

lemma run_open_close:
  "run [SocketOpens 0, SocketCloses 0] (connectWebSocket initial_state) = Some after_close"
  by (simp add: after_close_def after_open_def connectWebSocket_def initial_state_def
      onopen_def)

subsection \<open>The alert registry\<close>

text \<open>
  Claim C2, as amended. When the API call fails, each of the four operations leaves the
  state as it was but for the console, so the cached alerts are untouched. \<^verbatim>\<open>createAlert\<close>,
  \<^verbatim>\<open>toggleAlert\<close> and \<^verbatim>\<open>deleteAlert\<close> reject with the error of the call. \<^verbatim>\<open>fetchAlerts\<close>
  does not: it catches the error, logs it a second time and resolves.
\<close>

theorem failed_call_keeps_alerts:
  assumes "apiRequest_try out_list = Inl e1" and "apiRequest_try out_create = Inl e2"
    and "apiRequest_try out_toggle = Inl e3" and "apiRequest_try out_delete = Inl e4"
  shows "fetchAlerts out_list s =
           (Inr (), s\<lparr>console := console s @ [ErrorLog ''API Error:'' e1,
                                                ErrorLog ''Failed to fetch alerts:'' e1]\<rparr>)
       \<and> createAlert out_create s =
           (Inl e2, s\<lparr>console := console s @ [ErrorLog ''API Error:'' e2]\<rparr>)
       \<and> toggleAlert i out_toggle s =
           (Inl e3, s\<lparr>console := console s @ [ErrorLog ''API Error:'' e3]\<rparr>)
       \<and> deleteAlert i out_delete s =
           (Inl e4, s\<lparr>console := console s @ [ErrorLog ''API Error:'' e4]\<rparr>)"
  using assms
  by (simp add: fetchAlerts_def createAlert_def toggleAlert_def deleteAlert_def apiRequest_fails)

text \<open>Witness for C2: no network for the listing, a 401 for the creation, a 500 with a
  body that is not JSON for the toggle and an empty body for the deletion, all on the
  restored session.\<close>

theorem failed_call_keeps_alerts_witness:
  "apiRequest_try (FetchRejected :: alert_rule list fetch_outcome) = Inl TypeError
   \<and> apiRequest_try (HttpFail (Some not_authenticated) :: alert_rule fetch_outcome)
        = Inl (Error ''Could not validate credentials'')
   \<and> apiRequest_try (HttpFail None :: alert_rule fetch_outcome) = Inl (Error ''Request failed'')
   \<and> apiRequest_try (HttpOk None :: unit fetch_outcome) = Inl SyntaxError
   \<and> fst (fetchAlerts FetchRejected restored_session) = Inr ()
   \<and> alerts (snd (fetchAlerts FetchRejected restored_session)) = [rule7]
   \<and> fst (createAlert (HttpFail (Some not_authenticated)) restored_session)
        = Inl (Error ''Could not validate credentials'')
   \<and> alerts (snd (createAlert (HttpFail (Some not_authenticated)) restored_session)) = [rule7]
   \<and> fst (toggleAlert 7 (HttpFail None) restored_session) = Inl (Error ''Request failed'')
   \<and> alerts (snd (toggleAlert 7 (HttpFail None) restored_session)) = [rule7]
   \<and> fst (deleteAlert 7 (HttpOk None) restored_session) = Inl SyntaxError
   \<and> alerts (snd (deleteAlert 7 (HttpOk None) restored_session)) = [rule7]"
proof -
  have h1: "apiRequest_try (FetchRejected :: alert_rule list fetch_outcome) = Inl TypeError"
    by (simp add: apiRequest_try_def)
  have h2: "apiRequest_try (HttpFail (Some not_authenticated) :: alert_rule fetch_outcome)
              = Inl (Error ''Could not validate credentials'')"
    by (simp add: apiRequest_try_def not_authenticated_def new_Error_def or_else_def)
  have h3: "apiRequest_try (HttpFail None :: alert_rule fetch_outcome)
              = Inl (Error ''Request failed'')"
    by (simp add: apiRequest_try_def new_Error_def or_else_def)
  have h4: "apiRequest_try (HttpOk None :: unit fetch_outcome) = Inl SyntaxError"
    by (simp add: apiRequest_try_def)
  have a: "alerts restored_session = [rule7]"
    by (simp add: restored_session_def initial_state_def)
  show ?thesis
    using failed_call_keeps_alerts [OF h1 h2 h3 h4, of restored_session 7] h1 h2 h3 h4 a
    by simp
qed

text \<open>Counterexample to C2 as stated: the listing call fails (a response that is not
  OK, with no JSON body), and \<^verbatim>\<open>fetchAlerts\<close> resolves all the same; its caller sees no
  error.\<close>

theorem fetchAlerts_swallows_failure:
  "isl (fst (apiRequest (HttpFail None :: alert_rule list fetch_outcome) initial_state))
   \<and> fst (fetchAlerts (HttpFail None) initial_state) = Inr ()"
  by (simp add: fetchAlerts_def apiRequest_def apiRequest_try_def new_Error_def or_else_def)

text \<open>
  Claim C8. Let no cached rule have the id \<open>i\<close>. A successful \<^verbatim>\<open>createAlert\<close> whose
  returned rule has the id \<open>i\<close> puts that rule at the front of the cache, and a
  successful \<^verbatim>\<open>deleteAlert\<close> of \<open>i\<close> after it leaves the cache as it was before both: the
  same rules in the same order.
\<close>

theorem create_then_delete_restores:
  assumes "\<forall>a \<in> set (alerts s). id_alert a \<noteq> i" and "id_alert alert = i"
  shows "fst (createAlert (HttpOk (Some alert)) s) = Inr alert
       \<and> alerts (snd (createAlert (HttpOk (Some alert)) s)) = alert # alerts s
       \<and> fst (deleteAlert i (HttpOk (Some ())) (snd (createAlert (HttpOk (Some alert)) s)))
           = Inr ()
       \<and> alerts (snd (deleteAlert i (HttpOk (Some ()))
                        (snd (createAlert (HttpOk (Some alert)) s)))) = alerts s"
  using assms
  by (simp add: createAlert_def deleteAlert_def apiRequest_def apiRequest_try_def)

text \<open>Witness for C8: rule 9 is created and deleted again beside the cached rule 7.\<close>

theorem create_then_delete_restores_witness:
  "id_alert rule7 \<noteq> 9 \<and> id_alert rule9 = 9
   \<and> alerts (snd (createAlert (HttpOk (Some rule9)) restored_session)) = [rule9, rule7]
   \<and> alerts (snd (deleteAlert 9 (HttpOk (Some ()))
                    (snd (createAlert (HttpOk (Some rule9)) restored_session)))) = [rule7]"
proof -
  have a: "alerts restored_session = [rule7]"
    by (simp add: restored_session_def initial_state_def)
  have h1: "\<forall>a \<in> set (alerts restored_session). id_alert a \<noteq> 9"
    by (simp add: a rule7_def)
  have h2: "id_alert rule9 = 9"
    by (simp add: rule9_def)
  show ?thesis
    using create_then_delete_restores [OF h1 h2] h1 h2 a by simp
qed

subsection \<open>The session\<close>

text \<open>
  Claim C6. When the call behind \<^verbatim>\<open>fetchUserProfile\<close> fails, whatever the failure, the
  logout runs: afterwards the token is gone from the state and from localStorage, there
  is no profile, and the cache of alerts is empty.
\<close>

theorem profile_failure_forces_logout:
  assumes "apiRequest_try out = Inl e"
  shows "token (snd (fetchUserProfile out s)) = None
       \<and> localStorage_token (snd (fetchUserProfile out s)) = None
       \<and> user (snd (fetchUserProfile out s)) = None
       \<and> alerts (snd (fetchUserProfile out s)) = []"
  using assms by (simp add: fetchUserProfile_def apiRequest_fails logout_def)

text \<open>Witness for C6: the restored session meets a 401.\<close>

theorem profile_failure_forces_logout_witness:
  "apiRequest_try (HttpFail (Some not_authenticated) :: user_profile fetch_outcome)
     = Inl (Error ''Could not validate credentials'')
   \<and> token restored_session = Some ''T''
   \<and> localStorage_token restored_session = Some ''T''
   \<and> alerts restored_session = [rule7]
   \<and> token (snd (fetchUserProfile (HttpFail (Some not_authenticated)) restored_session)) = None
   \<and> localStorage_token
        (snd (fetchUserProfile (HttpFail (Some not_authenticated)) restored_session)) = None
   \<and> user (snd (fetchUserProfile (HttpFail (Some not_authenticated)) restored_session)) = None
   \<and> alerts (snd (fetchUserProfile (HttpFail (Some not_authenticated)) restored_session)) = []"
proof -
  have h: "apiRequest_try (HttpFail (Some not_authenticated) :: user_profile fetch_outcome)
             = Inl (Error ''Could not validate credentials'')"
    by (simp add: apiRequest_try_def not_authenticated_def new_Error_def or_else_def)
  show ?thesis
    using profile_failure_forces_logout [OF h, of restored_session] h
    by (simp add: restored_session_def initial_state_def)
qed

text \<open>
  In \<^verbatim>\<open>init\<close> the listing of the alerts is still requested after the forced logout. The
  token, its saved copy and the profile stay cleared; the cache stays empty unless the
  gateway answers that request, sent without a token, with a listing.
\<close>

lemma init_session_profile_failure:
  assumes "localStorage_token s = Some t" and "t \<noteq> []" and "apiRequest_try prof_out = Inl e"
  shows "token (init_session prof_out alerts_out s) = None
       \<and> localStorage_token (init_session prof_out alerts_out s) = None
       \<and> user (init_session prof_out alerts_out s) = None
       \<and> alerts (init_session prof_out alerts_out s)
           = (case apiRequest_try alerts_out of Inl _ \<Rightarrow> [] | Inr as \<Rightarrow> as)"
  using assms
  by (simp add: init_session_def fetchUserProfile_def fetchAlerts_def apiRequest_fails logout_def
      apiRequest_def split: sum.splits)

text \<open>
  When the call succeeds, the profile is kept, unless drawing it throws: a profile
  with an empty email ends in the logout too.
\<close>

lemma fetchUserProfile_success:
  assumes "apiRequest_try out = Inr u"
  shows "snd (fetchUserProfile out s) =
           (if email u = [] then logout (s\<lparr>user := Some u, ui := ui s @ [UpdateUserUI]\<rparr>)
            else s\<lparr>user := Some u, ui := ui s @ [UpdateUserUI]\<rparr>)"
  using assms by (simp add: fetchUserProfile_def apiRequest_succeeds updateUserUI_def)

lemma nameless_profile_logs_out:
  "user (snd (fetchUserProfile (HttpOk (Some nameless)) restored_session)) = None
   \<and> token (snd (fetchUserProfile (HttpOk (Some nameless)) restored_session)) = None"
  by (simp add: fetchUserProfile_def apiRequest_def apiRequest_try_def updateUserUI_def
      nameless_def logout_def)

subsection \<open>Error messages of failed calls\<close>

text \<open>
  \<^verbatim>\<open>apiRequest\<close> on a response that is not OK: the message is the \<^verbatim>\<open>detail\<close> of the body
  when that is truthy, and \<^verbatim>\<open>Request failed\<close> when the body does not parse or has no
  such \<^verbatim>\<open>detail\<close>. (A \<^verbatim>\<open>detail\<close> that cannot be turned into a string ends in a
  \<^verbatim>\<open>TypeError\<close>.)
\<close>

lemma apiRequest_error_message:
  "apiRequest_try (HttpFail None) = Inl (Error ''Request failed'')"
  "apiRequest_try (HttpFail (Some (JObj kvs))) =
     Inl (case map_of kvs ''detail'' of
            None \<Rightarrow> Error ''Request failed''
          | Some d \<Rightarrow> if truthy d then new_Error (Some d) else Error ''Request failed'')"
  "new_Error (Some (JStr m)) = Error m"
  by (simp_all add: apiRequest_try_def new_Error_def or_else_def split: option.splits)

text \<open>\<^verbatim>\<open>login\<close> on a response that is not OK: the fallback \<^verbatim>\<open>Login failed\<close> stands in
  for a body that does not parse only; the \<^verbatim>\<open>detail\<close> of a parsed body is passed to
  \<^verbatim>\<open>new Error\<close> as it is, also when it is missing.\<close>

lemma login_error_message:
  "login (HttpFail None) prof_out alerts_out s = (Inl (Error ''Login failed''), s)"
  "login (HttpFail (Some (JObj kvs))) prof_out alerts_out s =
     (Inl (new_Error (map_of kvs ''detail'')), s)"
  "new_Error None = Error []"
  by (simp_all add: login_def new_Error_def split: option.splits)

text \<open>
  Claim C7, at the input where the code leaves it: the login endpoint answers with an
  error status and the body \<^verbatim>\<open>{}\<close>. \<^verbatim>\<open>login\<close> rejects with an error whose message is
  empty, where \<^verbatim>\<open>apiRequest\<close> puts its fallback for the same response.
\<close>

theorem login_without_detail_empty_message:
  "login (HttpFail (Some (JObj []))) prof_out alerts_out s = (Inl (Error []), s)
   \<and> (apiRequest_try (HttpFail (Some (JObj []))) :: js_error + token_response)
        = Inl (Error ''Request failed'')"
  by (simp add: login_def apiRequest_try_def new_Error_def or_else_def)

subsection \<open>The connection\<close>

text \<open>
  Claim C9. While \<^verbatim>\<open>state.ws\<close> refers to an open socket, \<^verbatim>\<open>connectWebSocket\<close> changes
  nothing: no socket is created, and \<^verbatim>\<open>state.ws\<close>, the connectivity flag, the prices and
  everything else stay as they are.
\<close>

theorem connect_while_open_is_noop:
  "ws s = Some i \<Longrightarrow> i < length (sockets s) \<Longrightarrow> sockets s ! i = OPEN \<Longrightarrow>
   connectWebSocket s = s"
  by (simp add: connectWebSocket_def)

text \<open>Witness for C9.\<close>

theorem connect_while_open_is_noop_witness:
  "ws connected_state = Some 0 \<and> 0 < length (sockets connected_state)
   \<and> sockets connected_state ! 0 = OPEN
   \<and> connectWebSocket connected_state = connected_state"
proof -
  have h: "ws connected_state = Some 0" "0 < length (sockets connected_state)"
    "sockets connected_state ! 0 = OPEN"
    by (simp_all add: connected_state_def initial_state_def)
  show ?thesis
    using connect_while_open_is_noop [OF h] h by simp
qed

text \<open>Otherwise a socket is created and \<^verbatim>\<open>state.ws\<close> refers to it.\<close>

lemma connect_otherwise_creates:
  "ws s = None \<or> (\<exists>i. ws s = Some i \<and> i < length (sockets s) \<and> sockets s ! i \<noteq> OPEN) \<Longrightarrow>
   connectWebSocket s = s\<lparr>ws := Some (length (sockets s)), sockets := sockets s @ [CONNECTING]\<rparr>"
  by (auto simp: connectWebSocket_def)

subsection \<open>The filtered view\<close>

text \<open>
  Claim C10. A symbol that has a quote in the store and no entry in the catalogue is in
  the view of no filter other than \<^verbatim>\<open>all\<close> (so not in that of \<^verbatim>\<open>other\<close>, under which its
  card is drawn), and under \<^verbatim>\<open>all\<close> the view is the whole store, that symbol included.
\<close>

theorem unlisted_symbol_views:
  assumes "(k, q) \<in> set (own (prices s))" and "map_of INSTRUMENTS k = None"
  shows "(activeFilter s \<noteq> ''all'' \<longrightarrow> k \<notin> fst ` set (pricesToShow s))
       \<and> (activeFilter s = ''all'' \<longrightarrow>
            (k, q) \<in> set (pricesToShow s) \<and> pricesToShow s = own (prices s))"
  using assms by (auto simp: pricesToShow_def info_category_def Let_def)

text \<open>Witness for C10: PEPE is stored beside BTC; the filters are \<^verbatim>\<open>other\<close> and
  \<^verbatim>\<open>all\<close>.\<close>

theorem unlisted_symbol_views_witness:
  "(''PEPE'', JObj [(''price'', JNum ''0.5'')]) \<in> set (own (prices (with_unlisted ''other'')))
   \<and> map_of INSTRUMENTS ''PEPE'' = None
   \<and> activeFilter (with_unlisted ''other'') \<noteq> ''all''
   \<and> ''PEPE'' \<notin> fst ` set (pricesToShow (with_unlisted ''other''))
   \<and> activeFilter (with_unlisted ''all'') = ''all''
   \<and> (''PEPE'', JObj [(''price'', JNum ''0.5'')]) \<in> set (pricesToShow (with_unlisted ''all''))"
proof -
  have h1: "(''PEPE'', JObj [(''price'', JNum ''0.5'')]) \<in> set (own (prices (with_unlisted flt)))"
    for flt by (simp add: with_unlisted_def)
  have h2: "map_of INSTRUMENTS ''PEPE'' = None"
    by (simp add: INSTRUMENTS_def)
  have f: "activeFilter (with_unlisted flt) = flt" for flt
    by (simp add: with_unlisted_def)
  show ?thesis
    using unlisted_symbol_views [OF h1 h2, of "''other''"]
      unlisted_symbol_views [OF h1 h2, of "''all''"] h1 h2 f
    by simp
qed

text \<open>
  Claim C3, as amended. The view holds exactly the entries of the store that the filter
  admits (all of them under \<^verbatim>\<open>all\<close>, otherwise those whose catalogue category is the
  filter), in the order in which the store enumerates them, which is not the order of
  the catalogue. In that order the symbols that are array indices come first, in
  ascending numeric order, and every other symbol follows in the order in which its
  entry was created: a quote for a stored symbol takes the place of the old one, and
  the first quote for a symbol creates its entry behind the entries that may stand
  before it, which for a symbol that is no array index is the end. No symbol of the
  catalogue is an array index. Under the key \<^verbatim>\<open>__proto__\<close> no entry is created while
  the store inherits the setter of that name.
\<close>

theorem view_in_store_order:
  "pricesToShow s =
     filter (\<lambda>(k, q). activeFilter s = ''all'' \<or> info_category k = Some (activeFilter s))
       (own (prices s))
   \<and> (store_ordered (prices s) \<longrightarrow>
        sorted_wrt index_order (map fst (pricesToShow s))
        \<and> distinct (map fst (pricesToShow s)))
   \<and> (map_of (own st) k = Some old \<longrightarrow>
        map fst (own (store_set st k v)) = map fst (own st)
        \<and> map_of (own (store_set st k v)) = (map_of (own st))(k \<mapsto> v))
   \<and> (map_of (own st) k = None \<longrightarrow>
        own (store_set st k v) =
          (if k = ''__proto__'' \<and> setter_inherited (proto st) then own st
           else takeWhile (\<lambda>(k', q). index_order k' k) (own st) @ [(k, v)]
                @ dropWhile (\<lambda>(k', q). index_order k' k) (own st)))
   \<and> (map_of (own st) k = None \<and> array_index k = None \<and> k \<noteq> ''__proto__'' \<longrightarrow>
        own (store_set st k v) = own st @ [(k, v)])
   \<and> (map_of INSTRUMENTS k = Some info \<longrightarrow> array_index k = None \<and> k \<noteq> ''__proto__'')
   \<and> (store_ordered st \<longrightarrow> store_ordered (store_set st k v))
   \<and> store_ordered (prices initial_state)
   \<and> (store_ordered (prices s) \<longrightarrow> store_ordered (prices (onmessage card_err parsed s)))"
proof (intro conjI impI)
  show v: "pricesToShow s =
     filter (\<lambda>(k, q). activeFilter s = ''all'' \<or> info_category k = Some (activeFilter s))
       (own (prices s))"
    by (auto simp: pricesToShow_def Let_def intro: filter_cong)
  show "store_ordered (prices initial_state)"
    by (simp add: store_ordered_def initial_state_def)
  show "store_ordered (store_set st k v)" if "store_ordered st"
    using that by (rule store_set_ordered)
  show "store_ordered (prices (onmessage card_err parsed s))" if "store_ordered (prices s)"
    using that by (rule onmessage_ordered)
  show "array_index k = None" and "k \<noteq> ''__proto__''" if "map_of INSTRUMENTS k = Some info"
    using catalogue_key_plain[OF that] by simp_all
  show "sorted_wrt index_order (map fst (pricesToShow s))"
    and "distinct (map fst (pricesToShow s))" if "store_ordered (prices s)"
  proof -
    from that have "sorted_wrt (\<lambda>p q. index_order (fst p) (fst q)) (own (prices s))"
      and d: "distinct (map fst (own (prices s)))"
      by (simp_all add: store_ordered_def sorted_wrt_map)
    then show "sorted_wrt index_order (map fst (pricesToShow s))"
      unfolding v by (simp add: sorted_wrt_map sorted_wrt_filter)
    from d show "distinct (map fst (pricesToShow s))"
      unfolding v by (rule distinct_map_filter)
  qed
next
  assume old: "map_of (own st) k = Some old"
  then show "map fst (own (store_set st k v)) = map fst (own st)"
    by (simp add: store_set_known_key keys_replace_own)
  from old show "map_of (own (store_set st k v)) = (map_of (own st))(k \<mapsto> v)"
    by (auto simp: store_set_known_key map_of_replace_own)
next
  assume "map_of (own st) k = None"
  then show "own (store_set st k v) =
          (if k = ''__proto__'' \<and> setter_inherited (proto st) then own st
           else takeWhile (\<lambda>(k', q). index_order k' k) (own st) @ [(k, v)]
                @ dropWhile (\<lambda>(k', q). index_order k' k) (own st))"
    by (simp add: store_set_new_key define_own_closed)
next
  assume "map_of (own st) k = None \<and> array_index k = None \<and> k \<noteq> ''__proto__''"
  then show "own (store_set st k v) = own st @ [(k, v)]"
    by (simp add: store_set_new_key define_own_def)
qed

text \<open>Witness for C3: after quotes for B and for 10, the store lists 10 before B; a
  quote for 9 goes before both, one for the catalogue's SOL goes last, and a new quote
  for B stays where B is.\<close>

theorem view_in_store_order_witness:
  "store_ordered (prices b_then_10)
   \<and> map fst (pricesToShow b_then_10) = [''10'', ''B'']
   \<and> sorted_wrt index_order (map fst (pricesToShow b_then_10))
   \<and> map_of (own (prices b_then_10)) ''B'' = Some (quote_for (JStr ''B''))
   \<and> map fst (own (store_set (prices b_then_10) ''B'' btc_quote)) = [''10'', ''B'']
   \<and> map_of (own (prices b_then_10)) ''9'' = None
   \<and> map fst (own (store_set (prices b_then_10) ''9'' btc_quote)) = [''9'', ''10'', ''B'']
   \<and> map_of (own (prices b_then_10)) ''SOL'' = None
   \<and> map_of INSTRUMENTS ''SOL'' = Some \<lparr>name = ''Solana'', category = ''crypto''\<rparr>
   \<and> map fst (own (store_set (prices b_then_10) ''SOL'' btc_quote)) = [''10'', ''B'', ''SOL'']
   \<and> store_ordered (store_set (prices b_then_10) ''9'' btc_quote)
   \<and> store_ordered (prices (onmessage None (Some (quote_for (JNum ''9''))) b_then_10))"
proof -
  have i9: "array_index ''9'' = Some 9" and i10: "array_index ''10'' = Some 10"
    and iB: "array_index ''B'' = None" and iS: "array_index ''SOL'' = None"
    by (simp_all add: array_index_def decimal_value_def is_digit_def)
  have o: "store_ordered (prices b_then_10)"
    by (simp add: b_then_10_prices store_ordered_def index_order_def i10 iB)
  have f: "activeFilter b_then_10 = ''all''"
    by (simp add: b_then_10_def onmessage_def onmessage_try_def quote_for_def
        initial_state_def Let_def)
  have h1: "map_of (own (prices b_then_10)) ''B'' = Some (quote_for (JStr ''B''))"
    by (simp add: b_then_10_prices)
  have h2: "map_of (own (prices b_then_10)) ''9'' = None"
    by (simp add: b_then_10_prices)
  have h3: "map_of (own (prices b_then_10)) ''SOL'' = None"
    by (simp add: b_then_10_prices)
  have h4: "map_of INSTRUMENTS ''SOL'' = Some \<lparr>name = ''Solana'', category = ''crypto''\<rparr>"
    by (simp add: INSTRUMENTS_def)
  note t1 = view_in_store_order [where s = b_then_10 and st = "prices b_then_10"
      and k = "''B''" and old = "quote_for (JStr ''B'')" and v = btc_quote
      and card_err = None and parsed = "Some (quote_for (JNum ''9''))"]
  note t2 = view_in_store_order [where s = b_then_10 and st = "prices b_then_10"
      and k = "''9''" and v = btc_quote]
  note t3 = view_in_store_order [where s = b_then_10 and st = "prices b_then_10"
      and k = "''SOL''" and v = btc_quote
      and info = "\<lparr>name = ''Solana'', category = ''crypto''\<rparr>"]
  from t1 o f have a: "map fst (pricesToShow b_then_10) = [''10'', ''B'']"
    "sorted_wrt index_order (map fst (pricesToShow b_then_10))"
    "store_ordered (prices (onmessage None (Some (quote_for (JNum ''9''))) b_then_10))"
    by (simp_all add: b_then_10_prices index_order_def i10 iB)
  from t1 h1 have b: "map fst (own (store_set (prices b_then_10) ''B'' btc_quote)) = [''10'', ''B'']"
    by (simp add: b_then_10_prices)
  from t2 h2 o
  have c: "map fst (own (store_set (prices b_then_10) ''9'' btc_quote)) = [''9'', ''10'', ''B'']"
    "store_ordered (store_set (prices b_then_10) ''9'' btc_quote)"
    by (simp_all add: b_then_10_prices index_order_def i9 i10 iB)
  from t3 h3 h4
  have d: "map fst (own (store_set (prices b_then_10) ''SOL'' btc_quote)) = [''10'', ''B'', ''SOL'']"
    by (simp add: b_then_10_prices index_order_def iS i10 iB)
  from o a b c d h1 h2 h3 h4 show ?thesis by simp
qed

text \<open>The arrival B, 10, 9 as the handler sees it: the view lists 9, 10, B.\<close>

lemma b_10_9_view:
  "map fst (pricesToShow (onmessage None (Some (quote_for (JNum ''9''))) b_then_10))
     = [''9'', ''10'', ''B'']"
proof -
  have i: "array_index ''9'' = Some 9" "array_index ''10'' = Some 10"
    by (simp_all add: array_index_def decimal_value_def is_digit_def)
  have f: "activeFilter b_then_10 = ''all''"
    by (simp add: b_then_10_def onmessage_def onmessage_try_def quote_for_def
        initial_state_def Let_def)
  show ?thesis
    by (simp add: onmessage_def onmessage_try_def quote_for_def pricesToShow_def f
        b_then_10_prices store_set_def define_own_def i Let_def)
qed

text \<open>Counterexample to C3 as stated: with the crypto tab selected, a quote for ETH
  arrives before one for BTC. The view lists ETH first; the catalogue lists BTC
  first.\<close>

theorem view_not_in_catalogue_order:
  "activeFilter eth_then_btc = ''crypto''
   \<and> map fst (pricesToShow eth_then_btc) = [''ETH'', ''BTC'']
   \<and> map fst (filteredView_spec ''crypto'' (prices eth_then_btc)) = [''BTC'', ''ETH'']"
proof (intro conjI)
  show f: "activeFilter eth_then_btc = ''crypto''"
    by (simp add: eth_then_btc_def onmessage_def onmessage_try_def eth_delta_def btc_delta_def
        initial_state_def Let_def)
  show "map fst (pricesToShow eth_then_btc) = [''ETH'', ''BTC'']"
    by (simp add: pricesToShow_def f eth_then_btc_own Let_def info_category_def INSTRUMENTS_def)
  show "map fst (filteredView_spec ''crypto'' (prices eth_then_btc)) = [''BTC'', ''ETH'']"
    by (simp add: filteredView_spec_def eth_then_btc_own INSTRUMENTS_def List.map_filter_simps)
qed

subsection \<open>Inbound frames\<close>

text \<open>
  Claim C4, as amended. A frame that is neither a snapshot, nor a heartbeat, nor has a
  \<^verbatim>\<open>symbol\<close> field leaves the whole state as it is but for the console: the prices, the
  sockets, \<^verbatim>\<open>state.ws\<close>, the connectivity flag and the timers are untouched, and the
  handler returns. A line is logged only when handling the frame threw: text that does
  not parse, and the value \<^verbatim>\<open>null\<close>. Any other such frame is dropped without a trace.
\<close>

theorem unrecognised_frame_dropped:
  assumes "unrecognised parsed"
  shows "onmessage card_err parsed s =
           (if parsed = None then
              s\<lparr>console := console s @ [ErrorLog ''WebSocket message error:'' SyntaxError]\<rparr>
            else if parsed = Some JNull then
              s\<lparr>console := console s @ [ErrorLog ''WebSocket message error:'' TypeError]\<rparr>
            else s)"
proof (cases parsed)
  case None
  then show ?thesis by (simp add: onmessage_def onmessage_try_def)
next
  case (Some data)
  with assms show ?thesis
    by (cases data) (simp_all add: onmessage_def onmessage_try_def)
qed

text \<open>Witness for C4: on the open connection, text that does not parse is logged and
  dropped, and an array is dropped.\<close>

theorem unrecognised_frame_dropped_witness:
  "unrecognised None
   \<and> onmessage None None connected_state =
       connected_state\<lparr>console := [ErrorLog ''WebSocket message error:'' SyntaxError]\<rparr>
   \<and> unrecognised (Some (JArr [JNum ''1'']))
   \<and> onmessage None (Some (JArr [JNum ''1''])) connected_state = connected_state"
proof -
  have h1: "unrecognised None" by simp
  have h2: "unrecognised (Some (JArr [JNum ''1'']))" by simp
  show ?thesis
    using unrecognised_frame_dropped [OF h1, of None connected_state]
      unrecognised_frame_dropped [OF h2, of None connected_state] h1 h2
    by (simp add: connected_state_def initial_state_def)
qed

text \<open>Counterexample to C4 as stated: the frame \<^verbatim>\<open>{"foo": 1}\<close> is none of the three
  shapes, and after it the console is as empty as before: nothing was logged.\<close>

theorem unknown_frame_not_logged:
  "unrecognised (Some unknown_frame)
   \<and> console connected_state = []
   \<and> console (onmessage None (Some unknown_frame) connected_state) = []"
  by (simp add: unknown_frame_def onmessage_def onmessage_try_def connected_state_def
      initial_state_def)

text \<open>
  Claim C5, as amended. Let the store hold \<open>P\<close> under \<open>S\<close>, and let a frame arrive that is
  neither a snapshot nor a heartbeat and has a \<^verbatim>\<open>symbol\<close> field. The handler takes it as
  a delta for \<open>S\<close> when the symbol is truthy and reads \<open>S\<close> as a property key. Then what
  is captured before the overwrite, and handed to \<^verbatim>\<open>updatePriceCard\<close>, is the \<^verbatim>\<open>price\<close>
  field of \<open>P\<close> (\<^verbatim>\<open>undefined\<close> if \<open>P\<close> has none), not \<open>P\<close>; afterwards the store holds the
  whole frame under \<open>S\<close>, and no other entry, nor the order of the entries, nor anything
  else in the state but the rendering trace and the console has changed; the console
  gains a line exactly when \<^verbatim>\<open>updatePriceCard\<close> throws. A frame whose symbol is falsy
  (\<^verbatim>\<open>""\<close>, \<^verbatim>\<open>0\<close>, \<^verbatim>\<open>false\<close>, \<^verbatim>\<open>null\<close>) is dropped and changes nothing. A frame whose
  symbol cannot be read as a key (an object with a \<^verbatim>\<open>toString\<close> property of its own, or
  an array that holds one) is dropped with the \<^verbatim>\<open>TypeError\<close> logged, the store
  untouched.
\<close>

theorem delta_captures_price:
  assumes "map_of (own (prices s)) S = Some P"
    and "get_prop data ''type'' = Inr ty" and "ty \<noteq> Some (JStr ''snapshot'')"
    and "ty \<noteq> Some (JStr ''heartbeat'')"
    and "get_prop data ''symbol'' = Inr (Some sy)"
  shows "(truthy sy \<and> to_string sy = Some S \<longrightarrow>
            ui (onmessage card_err (Some data) s) = ui s @ [UpdatePriceCard sy data (price_of P)]
          \<and> map_of (own (prices (onmessage card_err (Some data) s)))
              = (map_of (own (prices s)))(S \<mapsto> data)
          \<and> map fst (own (prices (onmessage card_err (Some data) s))) = map fst (own (prices s))
          \<and> proto (prices (onmessage card_err (Some data) s)) = proto (prices s)
          \<and> console (onmessage card_err (Some data) s) =
              console s @ (case card_err of
                             None \<Rightarrow> []
                           | Some e \<Rightarrow> [ErrorLog ''WebSocket message error:'' e])
          \<and> (onmessage card_err (Some data) s)
                \<lparr>prices := prices s, ui := ui s, console := console s\<rparr> = s)
       \<and> (\<not> truthy sy \<longrightarrow> onmessage card_err (Some data) s = s)
       \<and> (truthy sy \<and> to_string sy = None \<longrightarrow>
            onmessage card_err (Some data) s =
              s\<lparr>console := console s @ [ErrorLog ''WebSocket message error:'' TypeError]\<rparr>)"
proof (intro conjI impI)
  assume "\<not> truthy sy"
  with assms show "onmessage card_err (Some data) s = s"
    by (simp add: onmessage_def onmessage_try_def)
next
  assume "truthy sy \<and> to_string sy = None"
  with assms show "onmessage card_err (Some data) s =
      s\<lparr>console := console s @ [ErrorLog ''WebSocket message error:'' TypeError]\<rparr>"
    by (simp add: onmessage_def onmessage_try_def)
next
  assume d: "truthy sy \<and> to_string sy = Some S"
  let ?s1 = "s\<lparr>prices := store_set (prices s) S data,
               ui := ui s @ [UpdatePriceCard sy data (price_of P)]\<rparr>"
  from assms d have t: "onmessage_try card_err (Some data) s = (card_err, ?s1)"
    by (simp add: onmessage_try_def Let_def oldPrice_of_def)
  have st: "store_set (prices s) S data
              = (prices s)\<lparr>own := replace_own (own (prices s)) S data\<rparr>"
    using assms(1) by (rule store_set_known_key)
  have m: "map_of (replace_own (own (prices s)) S data) = (map_of (own (prices s)))(S \<mapsto> data)"
    using assms(1) by (auto simp: map_of_replace_own)
  have om: "onmessage card_err (Some data) s =
      (case card_err of
         None \<Rightarrow> ?s1
       | Some e \<Rightarrow> ?s1\<lparr>console := console s @ [ErrorLog ''WebSocket message error:'' e]\<rparr>)"
    by (simp add: onmessage_def t split: option.splits)
  show "ui (onmessage card_err (Some data) s) = ui s @ [UpdatePriceCard sy data (price_of P)]"
    unfolding om by (cases card_err) simp_all
  show "map_of (own (prices (onmessage card_err (Some data) s)))
          = (map_of (own (prices s)))(S \<mapsto> data)"
    unfolding om by (cases card_err) (simp_all add: st m)
  show "map fst (own (prices (onmessage card_err (Some data) s))) = map fst (own (prices s))"
    unfolding om by (cases card_err) (simp_all add: st keys_replace_own)
  show "proto (prices (onmessage card_err (Some data) s)) = proto (prices s)"
    unfolding om by (cases card_err) (simp_all add: st)
  show "console (onmessage card_err (Some data) s) =
          console s @ (case card_err of
                         None \<Rightarrow> []
                       | Some e \<Rightarrow> [ErrorLog ''WebSocket message error:'' e])"
    unfolding om by (cases card_err) simp_all
  show "(onmessage card_err (Some data) s)
          \<lparr>prices := prices s, ui := ui s, console := console s\<rparr> = s"
    unfolding om by (cases card_err) simp_all
qed

text \<open>Witness for C5: the scenario of the specification, a delta for BTC after the
  snapshot; then a frame whose symbol is the empty string, and one whose symbol is an
  object with a \<^verbatim>\<open>toString\<close> of its own.\<close>

theorem delta_captures_price_witness:
  "map_of (own (prices after_snapshot)) ''BTC'' = Some btc_quote
   \<and> get_prop btc_delta ''type'' = Inr None
   \<and> get_prop btc_delta ''symbol'' = Inr (Some (JStr ''BTC''))
   \<and> truthy (JStr ''BTC'') \<and> to_string (JStr ''BTC'') = Some ''BTC''
   \<and> ui (onmessage None (Some btc_delta) after_snapshot)
        = ui after_snapshot @ [UpdatePriceCard (JStr ''BTC'') btc_delta (Some (JNum ''65000''))]
   \<and> map_of (own (prices (onmessage None (Some btc_delta) after_snapshot))) ''BTC''
        = Some btc_delta
   \<and> map fst (own (prices (onmessage None (Some btc_delta) after_snapshot))) = [''BTC'']
   \<and> console (onmessage (Some TypeError) (Some btc_delta) after_snapshot)
        = [ErrorLog ''WebSocket message error:'' TypeError]
   \<and> \<not> truthy (JStr [])
   \<and> onmessage None (Some (quote_for (JStr []))) after_snapshot = after_snapshot
   \<and> truthy (JObj [(''toString'', JNum ''1'')])
   \<and> to_string (JObj [(''toString'', JNum ''1'')]) = None
   \<and> onmessage None (Some (quote_for (JObj [(''toString'', JNum ''1'')]))) after_snapshot
        = after_snapshot\<lparr>console := [ErrorLog ''WebSocket message error:'' TypeError]\<rparr>"
proof -
  have h1: "map_of (own (prices after_snapshot)) ''BTC'' = Some btc_quote"
    by (simp add: after_snapshot_prices)
  have h2: "get_prop btc_delta ''type'' = Inr None"
    by (simp add: btc_delta_def)
  have h3: "get_prop btc_delta ''symbol'' = Inr (Some (JStr ''BTC''))"
    by (simp add: btc_delta_def)
  have h4: "truthy (JStr ''BTC'')" "to_string (JStr ''BTC'') = Some ''BTC''"
    by simp_all
  have q2: "get_prop (quote_for sy) ''type'' = Inr None"
    and q3: "get_prop (quote_for sy) ''symbol'' = Inr (Some sy)" for sy
    by (simp_all add: quote_for_def)
  have h5: "\<not> truthy (JStr [])" by simp
  have h6: "truthy (JObj [(''toString'', JNum ''1'')])"
    "to_string (JObj [(''toString'', JNum ''1'')]) = None"
    by simp_all
  have p: "price_of btc_quote = Some (JNum ''65000'')"
    by (simp add: btc_quote_def)
  have c: "console after_snapshot = []" "ui after_snapshot = [RenderPriceGrid]"
    by (simp_all add: after_snapshot_state initial_state_def)
  note a = delta_captures_price [OF h1 h2 _ _ h3, where card_err = None]
  note b = delta_captures_price [OF h1 h2 _ _ h3, where card_err = "Some TypeError"]
  note d = delta_captures_price [OF h1 q2 [of "JStr []"] _ _ q3 [of "JStr []"],
      where card_err = None]
  note e = delta_captures_price [OF h1 q2 [of "JObj [(''toString'', JNum ''1'')]"] _ _
      q3 [of "JObj [(''toString'', JNum ''1'')]"], where card_err = None]
  from a h4 p have a': "ui (onmessage None (Some btc_delta) after_snapshot)
        = ui after_snapshot @ [UpdatePriceCard (JStr ''BTC'') btc_delta (Some (JNum ''65000''))]"
    "map_of (own (prices (onmessage None (Some btc_delta) after_snapshot))) ''BTC''
        = Some btc_delta"
    "map fst (own (prices (onmessage None (Some btc_delta) after_snapshot))) = [''BTC'']"
    by (simp_all add: after_snapshot_prices)
  from b h4 c have b': "console (onmessage (Some TypeError) (Some btc_delta) after_snapshot)
        = [ErrorLog ''WebSocket message error:'' TypeError]"
    by simp
  from d h5 have d': "onmessage None (Some (quote_for (JStr []))) after_snapshot = after_snapshot"
    by simp
  from e h6 c
  have e': "onmessage None (Some (quote_for (JObj [(''toString'', JNum ''1'')]))) after_snapshot
        = after_snapshot\<lparr>console := [ErrorLog ''WebSocket message error:'' TypeError]\<rparr>"
    by simp
  from h1 h2 h3 h4 h5 h6 a' b' d' e' show ?thesis by simp
qed

text \<open>Counterexample to C5 as stated: in that scenario the previous quote of BTC is the
  object with price and timestamp; what the handler captures is the number 65000.\<close>

theorem delta_captures_not_the_quote:
  "map_of (own (prices after_snapshot)) ''BTC'' = Some btc_quote
   \<and> last (ui (onmessage None (Some btc_delta) after_snapshot))
        = UpdatePriceCard (JStr ''BTC'') btc_delta (Some (JNum ''65000''))
   \<and> Some (JNum ''65000'') \<noteq> Some btc_quote"
  by (simp add: after_snapshot_state onmessage_def onmessage_try_def btc_delta_def
      btc_quote_def oldPrice_of_def store_set_def Let_def)

text \<open>A snapshot is stored before the grid is drawn, so a quote that the drawing
  throws on stays in the store, and the error is logged.\<close>

lemma null_quote_logged:
  "onmessage None (Some null_snapshot) initial_state =
     initial_state\<lparr>prices := \<lparr>own = [(''BTC'', JNull)], proto = ObjectPrototype\<rparr>,
                   ui := [RenderPriceGrid],
                   console := [ErrorLog ''WebSocket message error:'' TypeError]\<rparr>"
  by (simp add: onmessage_def onmessage_try_def null_snapshot_def initial_state_def
      store_set_def define_own_def array_index_letter is_digit_def renderPriceGrid_def
      pricesToShow_def createPriceCardHTML_throws_def)

subsection \<open>Reconnecting\<close>

text \<open>The close handler by itself: every call adds one timer.\<close>

lemma onclose_adds_timer: "timers (onclose s) = timers s @ [RECONNECT_DELAY]"
  by (simp add: onclose_def)

text \<open>
  Claim C1. Take any run of the connection that starts with the call of
  \<^verbatim>\<open>connectWebSocket\<close> in \<^verbatim>\<open>init\<close>, and any state it passes through. At most one reconnect
  timer is pending there. A close signal that arrives there finds no timer pending and
  leaves exactly one, set to the fixed 3000 ms. And while a timer is pending no socket
  can deliver a close signal, so none is added before it fires.
\<close>

theorem reconnect_timers:
  assumes "sockets s0 = []" and "timers s0 = []"
    and "run es (connectWebSocket s0) = Some s1"
  shows "length (timers s1) \<le> 1
       \<and> RECONNECT_DELAY = 3000
       \<and> (step (SocketCloses i) s1 = Some s2 \<longrightarrow>
            timers s1 = [] \<and> timers s2 = [RECONNECT_DELAY])
       \<and> (timers s1 \<noteq> [] \<longrightarrow> step (SocketCloses i) s1 = None)"
proof (intro conjI impI)
  have inv: "length (timers s1) + live_sockets s1 = 1"
    using assms by (rule run_from_init)
  then show "length (timers s1) \<le> 1" by simp
  show "RECONNECT_DELAY = 3000" by (simp add: RECONNECT_DELAY_def)
  show "step (SocketCloses i) s1 = None" if "timers s1 \<noteq> []"
  proof -
    from that inv have "live_sockets s1 = 0"
      by (cases "timers s1") auto
    then have "i < length (sockets s1) \<Longrightarrow> sockets s1 ! i = CLOSED"
      using no_live_all_closed by (simp add: live_sockets_def)
    then show ?thesis by auto
  qed
  assume c: "step (SocketCloses i) s1 = Some s2"
  then have i: "i < length (sockets s1)" "sockets s1 ! i \<noteq> CLOSED"
    and s2: "s2 = onclose (s1\<lparr>sockets := (sockets s1)[i := CLOSED]\<rparr>)"
    by (auto split: if_splits)
  from live_socket_counts[OF i] inv show e: "timers s1 = []"
    by (cases "timers s1") auto
  then show "timers s2 = [RECONNECT_DELAY]" by (simp add: s2 onclose_def)
qed

text \<open>Witness for C1: the first socket opens, and then closes. Before the close no
  timer is pending; after it one is, and no socket is left to close.\<close>

theorem reconnect_timers_witness:
  "sockets initial_state = [] \<and> timers initial_state = []
   \<and> run [SocketOpens 0] (connectWebSocket initial_state) = Some after_open
   \<and> step (SocketCloses 0) after_open = Some after_close
   \<and> timers after_open = [] \<and> timers after_close = [3000]
   \<and> run [SocketOpens 0, SocketCloses 0] (connectWebSocket initial_state) = Some after_close
   \<and> length (timers after_close) \<le> 1
   \<and> step (SocketCloses 0) after_close = None"
proof -
  have i: "sockets initial_state = []" "timers initial_state = []"
    by (simp_all add: initial_state_def)
  have c: "step (SocketCloses 0) after_open = Some after_close"
    by (simp add: after_close_def after_open_def onopen_def)
  note a = reconnect_timers [OF i run_open, where i = 0 and ?s2.0 = after_close]
  note b = reconnect_timers [OF i run_open_close, where i = 0]
  from a c have "timers after_open = []" "timers after_close = [3000]" by simp_all
  moreover from this b have "length (timers after_close) \<le> 1"
    "step (SocketCloses 0) after_close = None" by simp_all
  ultimately show ?thesis
    using i c run_open run_open_close by simp
qed

end
